theory Spec2Isabelle
  imports Main "HOL-Library.Word" "HOL-Library.Sublist"
begin

section \<open>Transport credentials of core/comm (creds.go)\<close>

text \<open>
  The file creds.go holds two credential adapters. The server adapter \<open>serverCreds\<close> keeps
  a pointer to a TLS configuration that it shares with its creator; the client adapter
  \<open>DynamicClientCredentials\<close> keeps a pointer to a base configuration and a list of
  functions that are run on a clone of the base before every use.

  Pointers matter for every property of this file, so the model has an explicit store:
  one list of cells for each pointed-to type (Go pointers are typed, so a
  \<open>*tls.Config\<close> never aliases a \<open>*serverCreds\<close>). An address is an index into the
  list, allocation appends a cell, and a pointer is an optional address (\<open>None\<close> is
  \<open>nil\<close>). A dereference of \<open>nil\<close> is the panic \<open>NilDereference\<close>.

  A slice is a reference too: the fields \<open>Certificates\<close> and \<open>NextProtos\<close> of a
  configuration hold the address of a backing array, and \<open>RootCAs\<close> holds the address of a
  certificate pool. Copying a configuration copies these addresses, so the copy and the
  original share the arrays and the pool, and a write to an element through one of them is
  seen through the other.
\<close>

subsection \<open>Data\<close>

type_synonym ptr = "nat option"

text \<open>
  A slice value is the address of its backing array (the slices of this file span their
  whole array); \<open>None\<close> is the nil slice.
\<close>

type_synonym slice = "nat option"

text \<open>The 32 bytes of a session-ticket key, read as one number; the zero value is 0.\<close>

type_synonym ticket_key = "256 word"

text \<open>
  The fields of \<open>tls.Config\<close> (package gmtls) that creds.go, the configuration functions
  of the package and the library's \<open>Clone\<close> read or write. The last two fields are
  unexported: the \<open>sync.Once\<close> of the server initialisation (whether it has run) and the
  ticket keys derived by it.
\<close>

record tls_Config =
  Certificates :: slice
  RootCAs :: ptr
  NextProtos :: slice
  ServerName :: string
  MinVersion :: "16 word"
  MaxVersion :: "16 word"
  SessionTicketsDisabled :: bool
  SessionTicketKey :: ticket_key
  serverInitOnce :: bool
  sessionTicketKeys :: "ticket_key list"

text \<open>The memory that configurations refer to: backing arrays of slices and certificate pools.\<close>

record memory =
  arrays :: "string list list"
  pools :: "string list list"

text \<open>
  Modelled from the spec: the type \<open>TLSOption\<close> is declared outside creds.go. The spec
  describes a configuration-mutation function as a transformation from configuration to
  configuration that mutates or replaces fields on a clone. The model takes it as the
  function from the fields of the configuration it is handed, and the memory it reaches
  through them, to the fields and the memory it leaves: it can assign fields, allocate
  arrays and pools, and write to arrays and pools in place.
\<close>

type_synonym TLSOption = "tls_Config \<Rightarrow> memory \<Rightarrow> tls_Config \<times> memory"

text \<open>
  The error values of the package, one constructor for each \<open>errors.New\<close> of the \<open>var\<close>
  block, and \<open>TLSError\<close> for an error that the TLS library returns from a handshake (the
  library cannot return one of the package's own values), carrying its message.
\<close>

datatype error =
    ClientHandshakeNotImplError
  | OverrrideHostnameNotSupportedError
  | ServerHandshakeNotImplementedError
  | MissingServerConfigError
  | TLSError string

fun Error :: "error \<Rightarrow> string" where
  "Error ClientHandshakeNotImplError =
     ''core/comm: Client handshakes'' @ ''are not implemented with serverCreds''"
| "Error OverrrideHostnameNotSupportedError =
     ''core/comm: OverrideServerName is '' @ ''not supported''"
| "Error ServerHandshakeNotImplementedError =
     ''core/comm: server handshakes are not implemented with clientCreds''"
| "Error MissingServerConfigError = ''core/comm: `serverConfig` cannot be nil''"
| "Error (TLSError msg) = msg"

datatype panic = NilDereference | IndexOutOfRange

definition VersionTLS12 :: "16 word" where
  "VersionTLS12 = 0x0303"

record net_Conn =
  RemoteAddr :: string
  LocalAddr :: string

datatype Context = Background | Canceled | DeadlineExceeded

record ConnectionState =
  Version :: "16 word"
  HandshakeComplete :: bool
  NegotiatedProtocol :: string
  PeerCertificates :: "string list"

text \<open>The value of \<open>tls.Server(rawConn, config)\<close>: the raw connection and the pointer.\<close>

record tls_Conn =
  conn :: net_Conn
  config :: ptr

datatype AuthInfo = TLSInfo ConnectionState

record ProtocolInfo =
  SecurityProtocol :: string
  SecurityVersion :: string

record serverCreds =
  serverConfig :: ptr
  logger :: ptr

record DynamicClientCredentials =
  TLSConfig :: ptr
  TLSOptions :: "TLSOption list"

text \<open>The credential that \<open>credentials.NewTLS\<close> returns: it holds a pointer to its configuration.\<close>

record tlsCreds =
  creds_config :: ptr

text \<open>
  One call \<open>logger.With(key, value).Errorf(format, err)\<close>, as the code issues it: the
  logger it is issued on, the key and value given to \<open>With\<close>, the format string and the
  error argument.
\<close>

record log_call =
  on_logger :: nat
  with_fields :: "(string \<times> string) list"
  format :: string
  argument :: error

text \<open>
  The state: the cells of each type, the memory of arrays and pools, the logging calls
  issued so far, the package-level slice variable \<open>alpnProtoStr\<close> of creds.go, the variable
  of the same name of the credentials library, and the values that the next reads of the
  library's random source return (a read from the empty list fails).
\<close>

record state =
  configs :: "tls_Config list"
  mem :: memory
  servers :: "serverCreds list"
  clients :: "DynamicClientCredentials list"
  logged :: "log_call list"
  alpnProtoStr :: slice
  credentials_alpnProtoStr :: slice
  entropy :: "ticket_key list"

type_synonym handshake_result = "tls_Conn option \<times> AuthInfo option \<times> error option"

subsection \<open>The store\<close>

definition load :: "'a list \<Rightarrow> ptr \<Rightarrow> 'a option" where
  "load cells p =
     (case p of None \<Rightarrow> None
      | Some a \<Rightarrow> if a < length cells then Some (cells ! a) else None)"

text \<open>An assignment \<open>p.field = v\<close> through a configuration pointer.\<close>

definition assign_config :: "ptr \<Rightarrow> (tls_Config \<Rightarrow> tls_Config) \<Rightarrow> state \<Rightarrow> panic + state" where
  "assign_config p f s =
     (case p of None \<Rightarrow> Inl NilDereference
      | Some a \<Rightarrow>
          if a < length (configs s)
          then Inr (s\<lparr>configs := (configs s)[a := f (configs s ! a)]\<rparr>)
          else Inl NilDereference)"

text \<open>The elements of a slice and of a pool; the nil slice and the nil pool have none.\<close>

definition read_slice :: "memory \<Rightarrow> slice \<Rightarrow> string list" where
  "read_slice m sl = (case load (arrays m) sl of None \<Rightarrow> [] | Some xs \<Rightarrow> xs)"

definition read_pool :: "memory \<Rightarrow> ptr \<Rightarrow> string list" where
  "read_pool m p = (case load (pools m) p of None \<Rightarrow> [] | Some xs \<Rightarrow> xs)"

text \<open>An element assignment \<open>sl[i] = v\<close> and a call \<open>pool.AddCert(cert)\<close>.\<close>

definition write_element :: "slice \<Rightarrow> nat \<Rightarrow> string \<Rightarrow> memory \<Rightarrow> panic + memory" where
  "write_element sl i v m =
     (case sl of
        None \<Rightarrow> Inl IndexOutOfRange
      | Some a \<Rightarrow>
          if a < length (arrays m) \<and> i < length (arrays m ! a)
          then Inr (m\<lparr>arrays := (arrays m)[a := (arrays m ! a)[i := v]]\<rparr>)
          else Inl IndexOutOfRange)"


text \<open>
  A configuration as the TLS library reads it for a handshake: the fields, with the
  slices and the pool followed to their elements.
\<close>

record Config_read =
  read_Certificates :: "string list"
  read_RootCAs :: "string list"
  read_NextProtos :: "string list"
  read_ServerName :: string
  read_MinVersion :: "16 word"
  read_MaxVersion :: "16 word"

definition read_Config :: "memory \<Rightarrow> tls_Config \<Rightarrow> Config_read" where
  "read_Config m c =
     \<lparr>read_Certificates = read_slice m (Certificates c),
      read_RootCAs = read_pool m (RootCAs c),
      read_NextProtos = read_slice m (NextProtos c),
      read_ServerName = ServerName c,
      read_MinVersion = MinVersion c,
      read_MaxVersion = MaxVersion c\<rparr>"

definition deref_Config :: "state \<Rightarrow> ptr \<Rightarrow> Config_read option" where
  "deref_Config s p = map_option (read_Config (mem s)) (load (configs s) p)"

subsection \<open>The server adapter\<close>

text \<open>
  The first assignment stores the value of the package variable \<open>alpnProtoStr\<close>, a slice:
  the configuration then refers to the variable's backing array.
\<close>

definition NewServerTransportCredentials :: "ptr \<Rightarrow> ptr \<Rightarrow> state \<Rightarrow> panic + (state \<times> ptr)" where
  "NewServerTransportCredentials cfg lg s =
     (case assign_config cfg (\<lambda>c. c\<lparr>NextProtos := alpnProtoStr s\<rparr>) s of
        Inl e \<Rightarrow> Inl e
      | Inr s1 \<Rightarrow>
     (case assign_config cfg (\<lambda>c. c\<lparr>MinVersion := VersionTLS12\<rparr>) s1 of
        Inl e \<Rightarrow> Inl e
      | Inr s2 \<Rightarrow>
     (case assign_config cfg (\<lambda>c. c\<lparr>MaxVersion := VersionTLS12\<rparr>) s2 of
        Inl e \<Rightarrow> Inl e
      | Inr s3 \<Rightarrow>
          Inr (s3\<lparr>servers := servers s3 @ [\<lparr>serverConfig = cfg, logger = lg\<rparr>]\<rparr>,
               Some (length (servers s3))))))"

definition serverCreds_ClientHandshake ::
  "ptr \<Rightarrow> Context \<Rightarrow> string \<Rightarrow> net_Conn \<Rightarrow> handshake_result" where
  "serverCreds_ClientHandshake sc ctx authority rawConn =
     (None, None, Some ClientHandshakeNotImplError)"

definition tls_Server :: "net_Conn \<Rightarrow> ptr \<Rightarrow> tls_Conn" where
  "tls_Server rawConn cfg = \<lparr>conn = rawConn, config = cfg\<rparr>"

text \<open>
  \<open>Handshake\<close> stands for \<open>conn.Handshake()\<close> followed by \<open>conn.ConnectionState()\<close> of
  the TLS library: from the configuration that the connection's pointer designates when
  the handshake runs, as the library reads it (\<open>None\<close> for a nil pointer), and the raw
  connection, either the message of the error or the negotiated state. The model keeps
  what the handshake returns; what the library itself writes while it runs (to the
  connection, to the session-ticket state of the configuration) is outside it.
\<close>

definition serverCreds_ServerHandshake ::
  "(Config_read option \<Rightarrow> net_Conn \<Rightarrow> string + ConnectionState) \<Rightarrow>
   ptr \<Rightarrow> net_Conn \<Rightarrow> state \<Rightarrow> panic + (state \<times> handshake_result)" where
  "serverCreds_ServerHandshake Handshake sc rawConn s =
     (case load (servers s) sc of
        None \<Rightarrow> Inl NilDereference
      | Some this \<Rightarrow>
          let conn = tls_Server rawConn (serverConfig this) in
          (case Handshake (deref_Config s (config conn)) rawConn of
             Inl msg \<Rightarrow>
               let err = TLSError msg in
               Inr ((case logger this of
                       None \<Rightarrow> s
                     | Some l \<Rightarrow>
                         s\<lparr>logged := logged s @
                           [\<lparr>on_logger = l,
                             with_fields = [(''remote address'', RemoteAddr rawConn)],
                             format = ''TLS handshake failed with error %s'',
                             argument = err\<rparr>]\<rparr>),
                    (None, None, Some err))
           | Inr st \<Rightarrow> Inr (s, (Some conn, Some (TLSInfo st), None))))"

definition serverCreds_Info :: "ptr \<Rightarrow> ProtocolInfo" where
  "serverCreds_Info sc = \<lparr>SecurityProtocol = ''tls'', SecurityVersion = ''1.2''\<rparr>"

definition serverCreds_Clone :: "ptr \<Rightarrow> state \<Rightarrow> panic + (state \<times> ptr)" where
  "serverCreds_Clone sc s =
     (case load (servers s) sc of
        None \<Rightarrow> Inl NilDereference
      | Some this \<Rightarrow> NewServerTransportCredentials (serverConfig this) (logger this) s)"

definition serverCreds_OverrideServerName :: "ptr \<Rightarrow> string \<Rightarrow> error option" where
  "serverCreds_OverrideServerName sc name = Some OverrrideHostnameNotSupportedError"

subsection \<open>The TLS library: \<open>Config.Clone\<close>\<close>

text \<open>
  \<open>serverInit\<close> of the library, on the fields of a configuration and the random source:
  nothing when session tickets are disabled or ticket keys are present; otherwise a
  session-ticket key that is all zero is read from the random source (when the read
  fails, session tickets are disabled), and the ticket keys are derived from the key.
\<close>

definition serverInit :: "tls_Config \<Rightarrow> ticket_key list \<Rightarrow> tls_Config \<times> ticket_key list" where
  "serverInit c rnd =
     (if SessionTicketsDisabled c \<or> sessionTicketKeys c \<noteq> [] then (c, rnd)
      else if SessionTicketKey c \<noteq> 0 then (c\<lparr>sessionTicketKeys := [SessionTicketKey c]\<rparr>, rnd)
      else (case rnd of
              [] \<Rightarrow> (c\<lparr>SessionTicketsDisabled := True\<rparr>, [])
            | k # rest \<Rightarrow> (c\<lparr>SessionTicketKey := k, sessionTicketKeys := [k]\<rparr>, rest)))"

text \<open>\<open>c.serverInitOnce.Do(func() { c.serverInit(nil) })\<close> on the configuration at an address.\<close>

definition serverInitOnce_Do :: "nat \<Rightarrow> state \<Rightarrow> state" where
  "serverInitOnce_Do a s =
     (if serverInitOnce (configs s ! a) then s
      else (case serverInit (configs s ! a) (entropy s) of
              (c, rnd) \<Rightarrow>
                s\<lparr>configs := (configs s)[a := c\<lparr>serverInitOnce := True\<rparr>], entropy := rnd\<rparr>))"

text \<open>
  \<open>Config.Clone\<close>: it runs the one-time server initialisation of its receiver, so it can
  write the receiver's session-ticket fields, and returns a new configuration holding the
  fields of the receiver, with a \<open>sync.Once\<close> of its own. The copy is shallow: the slices
  and the pool pointer are copied as they are, so the arrays and the pool stay shared
  between the receiver and the clone.
\<close>

definition tls_Config_Clone :: "ptr \<Rightarrow> state \<Rightarrow> panic + (state \<times> ptr)" where
  "tls_Config_Clone p s =
     (case p of
        None \<Rightarrow> Inl NilDereference
      | Some a \<Rightarrow>
          if a < length (configs s)
          then (let s1 = serverInitOnce_Do a s in
                Inr (s1\<lparr>configs := configs s1 @ [(configs s1 ! a)\<lparr>serverInitOnce := False\<rparr>]\<rparr>,
                     Some (length (configs s1))))
          else Inl NilDereference)"

subsection \<open>The dynamic client adapter\<close>

text \<open>A call \<open>tlsOption(p)\<close>: the function works on the configuration at \<open>p\<close> and on the memory.\<close>

definition call_TLSOption :: "TLSOption \<Rightarrow> ptr \<Rightarrow> state \<Rightarrow> panic + state" where
  "call_TLSOption tlsOption p s =
     (case p of
        None \<Rightarrow> Inl NilDereference
      | Some a \<Rightarrow>
          if a < length (configs s)
          then (case tlsOption (configs s ! a) (mem s) of
                  (c, m) \<Rightarrow> Inr (s\<lparr>configs := (configs s)[a := c], mem := m\<rparr>))
          else Inl NilDereference)"

text \<open>The loop \<open>for _, tlsOption := range dtc.TLSOptions { tlsOption(tlsConfigCopy) }\<close>.\<close>

fun range_TLSOptions :: "TLSOption list \<Rightarrow> ptr \<Rightarrow> state \<Rightarrow> panic + state" where
  "range_TLSOptions [] tlsConfigCopy s = Inr s"
| "range_TLSOptions (tlsOption # rest) tlsConfigCopy s =
     (case call_TLSOption tlsOption tlsConfigCopy s of
        Inl e \<Rightarrow> Inl e
      | Inr s' \<Rightarrow> range_TLSOptions rest tlsConfigCopy s')"

definition latestConfig :: "ptr \<Rightarrow> state \<Rightarrow> panic + (state \<times> ptr)" where
  "latestConfig dtc s =
     (case load (clients s) dtc of
        None \<Rightarrow> Inl NilDereference
      | Some this \<Rightarrow>
          (case tls_Config_Clone (TLSConfig this) s of
             Inl e \<Rightarrow> Inl e
           | Inr (s1, tlsConfigCopy) \<Rightarrow>
               (case range_TLSOptions (TLSOptions this) tlsConfigCopy s1 of
                  Inl e \<Rightarrow> Inl e
                | Inr s2 \<Rightarrow> Inr (s2, tlsConfigCopy))))"

subsection \<open>The credentials library: \<open>NewTLS\<close>\<close>

text \<open>The zero value of \<open>tls.Config\<close>.\<close>

definition zero_Config :: tls_Config where
  "zero_Config =
     \<lparr>Certificates = None, RootCAs = None, NextProtos = None, ServerName = [],
      MinVersion = 0, MaxVersion = 0, SessionTicketsDisabled = False, SessionTicketKey = 0,
      serverInitOnce = False, sessionTicketKeys = []\<rparr>"

text \<open>\<open>cloneTLSConfig\<close>: a new zero configuration for nil, the clone otherwise.\<close>

definition cloneTLSConfig :: "ptr \<Rightarrow> state \<Rightarrow> panic + (state \<times> ptr)" where
  "cloneTLSConfig cfg s =
     (case cfg of
        None \<Rightarrow> Inr (s\<lparr>configs := configs s @ [zero_Config]\<rparr>, Some (length (configs s)))
      | Some a \<Rightarrow> tls_Config_Clone cfg s)"

text \<open>
  \<open>NewTLS\<close> does not keep the pointer it is given: it clones the configuration and sets
  the clone's \<open>NextProtos\<close> to the library's own \<open>alpnProtoStr\<close>.
\<close>

definition NewTLS :: "ptr \<Rightarrow> state \<Rightarrow> panic + (state \<times> tlsCreds)" where
  "NewTLS c s =
     (case cloneTLSConfig c s of
        Inl e \<Rightarrow> Inl e
      | Inr (s1, cfg) \<Rightarrow>
          (case assign_config cfg (\<lambda>x. x\<lparr>NextProtos := credentials_alpnProtoStr s1\<rparr>) s1 of
             Inl e \<Rightarrow> Inl e
           | Inr s2 \<Rightarrow> Inr (s2, \<lparr>creds_config = cfg\<rparr>)))"

text \<open>
  The methods of the library's credential. \<open>ClientHandshake'\<close> and \<open>Info'\<close> stand for the
  library's client handshake and protocol-info query, as functions of the configuration
  of the credential as the library reads it when the method runs.
\<close>

definition tlsCreds_ClientHandshake ::
  "(Config_read option \<Rightarrow> Context \<Rightarrow> string \<Rightarrow> net_Conn \<Rightarrow> string + ConnectionState) \<Rightarrow>
   tlsCreds \<Rightarrow> Context \<Rightarrow> string \<Rightarrow> net_Conn \<Rightarrow> state \<Rightarrow> handshake_result" where
  "tlsCreds_ClientHandshake ClientHandshake' tc ctx authority rawConn s =
     (case ClientHandshake' (deref_Config s (creds_config tc)) ctx authority rawConn of
        Inl msg \<Rightarrow> (None, None, Some (TLSError msg))
      | Inr st \<Rightarrow>
          (Some \<lparr>conn = rawConn, config = creds_config tc\<rparr>, Some (TLSInfo st), None))"

definition tlsCreds_Info ::
  "(Config_read option \<Rightarrow> ProtocolInfo) \<Rightarrow> tlsCreds \<Rightarrow> state \<Rightarrow> ProtocolInfo" where
  "tlsCreds_Info Info' tc s = Info' (deref_Config s (creds_config tc))"

subsection \<open>The dynamic client adapter, continued\<close>

definition DynamicClientCredentials_ClientHandshake ::
  "(Config_read option \<Rightarrow> Context \<Rightarrow> string \<Rightarrow> net_Conn \<Rightarrow> string + ConnectionState) \<Rightarrow>
   ptr \<Rightarrow> Context \<Rightarrow> string \<Rightarrow> net_Conn \<Rightarrow> state \<Rightarrow> panic + (state \<times> handshake_result)" where
  "DynamicClientCredentials_ClientHandshake ClientHandshake' dtc ctx authority rawConn s =
     (case latestConfig dtc s of
        Inl e \<Rightarrow> Inl e
      | Inr (s1, c) \<Rightarrow>
          (case NewTLS c s1 of
             Inl e \<Rightarrow> Inl e
           | Inr (s2, tc) \<Rightarrow>
               Inr (s2, tlsCreds_ClientHandshake ClientHandshake' tc ctx authority rawConn s2)))"

definition DynamicClientCredentials_ServerHandshake :: "ptr \<Rightarrow> net_Conn \<Rightarrow> handshake_result" where
  "DynamicClientCredentials_ServerHandshake dtc rawConn =
     (None, None, Some ServerHandshakeNotImplementedError)"

definition DynamicClientCredentials_Info ::
  "(Config_read option \<Rightarrow> ProtocolInfo) \<Rightarrow> ptr \<Rightarrow> state \<Rightarrow> panic + (state \<times> ProtocolInfo)" where
  "DynamicClientCredentials_Info Info' dtc s =
     (case latestConfig dtc s of
        Inl e \<Rightarrow> Inl e
      | Inr (s1, c) \<Rightarrow>
          (case NewTLS c s1 of
             Inl e \<Rightarrow> Inl e
           | Inr (s2, tc) \<Rightarrow> Inr (s2, tlsCreds_Info Info' tc s2)))"

definition DynamicClientCredentials_Clone :: "ptr \<Rightarrow> state \<Rightarrow> panic + (state \<times> tlsCreds)" where
  "DynamicClientCredentials_Clone dtc s =
     (case latestConfig dtc s of
        Inl e \<Rightarrow> Inl e
      | Inr (s1, c) \<Rightarrow> NewTLS c s1)"

definition DynamicClientCredentials_OverrideServerName ::
  "ptr \<Rightarrow> string \<Rightarrow> state \<Rightarrow> panic + (state \<times> error option)" where
  "DynamicClientCredentials_OverrideServerName dtc name s =
     (case load (clients s) dtc of
        None \<Rightarrow> Inl NilDereference
      | Some this \<Rightarrow>
          (case assign_config (TLSConfig this) (\<lambda>c. c\<lparr>ServerName := name\<rparr>) s of
             Inl e \<Rightarrow> Inl e
           | Inr s1 \<Rightarrow> Inr (s1, None)))"

subsection \<open>Sequences of calls on a client adapter\<close>

text \<open>
  The calls that the owner of a client adapter can make on it, and the run of a list of
  calls from a state; a panic ends the run. \<open>derives\<close> holds of the calls that go through
  \<open>latestConfig\<close>.
\<close>

datatype client_call =
    Call_latestConfig
  | Call_ClientHandshake Context string net_Conn
  | Call_Info
  | Call_Clone
  | Call_OverrideServerName string

definition state_after :: "panic + (state \<times> 'a) \<Rightarrow> panic + state" where
  "state_after r = (case r of Inl e \<Rightarrow> Inl e | Inr (s, x) \<Rightarrow> Inr s)"

fun do_call ::
  "(Config_read option \<Rightarrow> Context \<Rightarrow> string \<Rightarrow> net_Conn \<Rightarrow> string + ConnectionState) \<Rightarrow>
   (Config_read option \<Rightarrow> ProtocolInfo) \<Rightarrow> ptr \<Rightarrow> client_call \<Rightarrow> state \<Rightarrow> panic + state" where
  "do_call ClientHandshake' Info' dtc Call_latestConfig s = state_after (latestConfig dtc s)"
| "do_call ClientHandshake' Info' dtc (Call_ClientHandshake ctx authority rawConn) s =
     state_after (DynamicClientCredentials_ClientHandshake ClientHandshake' dtc ctx authority rawConn s)"
| "do_call ClientHandshake' Info' dtc Call_Info s =
     state_after (DynamicClientCredentials_Info Info' dtc s)"
| "do_call ClientHandshake' Info' dtc Call_Clone s =
     state_after (DynamicClientCredentials_Clone dtc s)"
| "do_call ClientHandshake' Info' dtc (Call_OverrideServerName name) s =
     state_after (DynamicClientCredentials_OverrideServerName dtc name s)"

fun do_calls ::
  "(Config_read option \<Rightarrow> Context \<Rightarrow> string \<Rightarrow> net_Conn \<Rightarrow> string + ConnectionState) \<Rightarrow>
   (Config_read option \<Rightarrow> ProtocolInfo) \<Rightarrow> ptr \<Rightarrow> client_call list \<Rightarrow> state \<Rightarrow> panic + state" where
  "do_calls ClientHandshake' Info' dtc [] s = Inr s"
| "do_calls ClientHandshake' Info' dtc (call # calls) s =
     (case do_call ClientHandshake' Info' dtc call s of
        Inl e \<Rightarrow> Inl e
      | Inr s' \<Rightarrow> do_calls ClientHandshake' Info' dtc calls s')"

fun derives :: "client_call \<Rightarrow> bool" where
  "derives (Call_OverrideServerName name) = False"
| "derives call = True"

text \<open>The fields of the snapshot that \<open>latestConfig\<close> derives after a list of calls.\<close>

definition snapshot_after ::
  "(Config_read option \<Rightarrow> Context \<Rightarrow> string \<Rightarrow> net_Conn \<Rightarrow> string + ConnectionState) \<Rightarrow>
   (Config_read option \<Rightarrow> ProtocolInfo) \<Rightarrow> ptr \<Rightarrow> client_call list \<Rightarrow> state \<Rightarrow>
   panic + tls_Config" where
  "snapshot_after ClientHandshake' Info' dtc calls s =
     (case do_calls ClientHandshake' Info' dtc calls s of
        Inl e \<Rightarrow> Inl e
      | Inr s1 \<Rightarrow>
          (case latestConfig dtc s1 of
             Inl e \<Rightarrow> Inl e
           | Inr (s2, p) \<Rightarrow>
               (case load (configs s2) p of
                  None \<Rightarrow> Inl NilDereference
                | Some c \<Rightarrow> Inr c)))"








text \<open>
  A caller of the server constructor: it builds an adapter on the configuration at \<open>a\<close>,
  writes element \<open>i\<close> of that configuration's protocol list, and builds an adapter on the
  configuration at \<open>b\<close>; the result is the protocol list of the second configuration.
\<close>

definition construct_write_construct ::
  "nat \<Rightarrow> nat \<Rightarrow> string \<Rightarrow> nat \<Rightarrow> state \<Rightarrow> panic + string list" where
  "construct_write_construct a i v b s =
     (case NewServerTransportCredentials (Some a) None s of
        Inl e \<Rightarrow> Inl e
      | Inr (s1, sc) \<Rightarrow>
          (case load (configs s1) (Some a) of
             None \<Rightarrow> Inl NilDereference
           | Some c \<Rightarrow>
               (case write_element (NextProtos c) i v (mem s1) of
                  Inl e \<Rightarrow> Inl e
                | Inr m \<Rightarrow>
                    (case NewServerTransportCredentials (Some b) None (s1\<lparr>mem := m\<rparr>) of
                       Inl e \<Rightarrow> Inl e
                     | Inr (s2, sc') \<Rightarrow>
                         (case load (configs s2) (Some b) of
                            None \<Rightarrow> Inl NilDereference
                          | Some c' \<Rightarrow> Inr (read_slice (mem s2) (NextProtos c')))))))"

subsection \<open>Notions used in the statements\<close>

text \<open>
  What a handshake entry point returns for an outcome of the library's handshake: the
  error alone, or the secured connection with the negotiated state.
\<close>

definition handshake_returns :: "tls_Conn \<Rightarrow> string + ConnectionState \<Rightarrow> handshake_result" where
  "handshake_returns c r =
     (case r of
        Inl msg \<Rightarrow> (None, None, Some (TLSError msg))
      | Inr st \<Rightarrow> (Some c, Some (TLSInfo st), None))"

text \<open>
  Two configurations agree on every field but the session-ticket state (the key, the
  derived keys, whether tickets are disabled, and whether the initialisation has run).
\<close>

definition same_but_tickets :: "tls_Config \<Rightarrow> tls_Config \<Rightarrow> bool" where
  "same_but_tickets c c' \<longleftrightarrow>
     Certificates c' = Certificates c \<and> RootCAs c' = RootCAs c \<and>
     NextProtos c' = NextProtos c \<and> ServerName c' = ServerName c \<and>
     MinVersion c' = MinVersion c \<and> MaxVersion c' = MaxVersion c"

text \<open>
  A memory keeps every array and every pool of another as it is (it may hold more of
  them): nothing was written in place.
\<close>

definition keeps :: "memory \<Rightarrow> memory \<Rightarrow> bool" where
  "keeps m m' \<longleftrightarrow> prefix (arrays m) (arrays m') \<and> prefix (pools m) (pools m')"


text \<open>
  The frame of the derivations of an adapter whose base is at address \<open>a\<close>: the
  configurations that existed are as they were, except for the session-ticket state of
  the base; the adapters, the log and the two package variables are as they were.
\<close>

definition frame :: "nat \<Rightarrow> state \<Rightarrow> state \<Rightarrow> bool" where
  "frame a s s' \<longleftrightarrow>
     take (length (configs s)) ((configs s')[a := configs s ! a]) = configs s \<and>
     same_but_tickets (configs s ! a) (configs s' ! a) \<and>
     servers s' = servers s \<and> clients s' = clients s \<and> logged s' = logged s \<and>
     alpnProtoStr s' = alpnProtoStr s \<and>
     credentials_alpnProtoStr s' = credentials_alpnProtoStr s"

subsection \<open>Example inputs\<close>

text \<open>
  Configuration functions: two that assign a field (the first to a new slice), and one
  that writes the first element of the certificate slice in place, when there is one.
\<close>

definition set_Certificates :: "string list \<Rightarrow> TLSOption" where
  "set_Certificates certs c m =
     (c\<lparr>Certificates := Some (length (arrays m))\<rparr>, m\<lparr>arrays := arrays m @ [certs]\<rparr>)"

definition set_ServerName :: "string \<Rightarrow> TLSOption" where
  "set_ServerName name c m = (c\<lparr>ServerName := name\<rparr>, m)"

definition replace_first_Certificate :: "string \<Rightarrow> TLSOption" where
  "replace_first_Certificate cert c m =
     (case write_element (Certificates c) 0 cert m of
        Inl e \<Rightarrow> (c, m)
      | Inr m' \<Rightarrow> (c, m'))"

text \<open>A behaviour of the library's handshakes and info query.\<close>

definition example_Handshake :: "Config_read option \<Rightarrow> net_Conn \<Rightarrow> string + ConnectionState" where
  "example_Handshake c rawConn =
     (case c of
        None \<Rightarrow> Inl ''tls: no configuration''
      | Some cfg \<Rightarrow>
          if read_Certificates cfg = [] then Inl ''tls: no certificates configured''
          else Inr \<lparr>Version = read_MaxVersion cfg, HandshakeComplete = True,
                    NegotiatedProtocol = ''h2'', PeerCertificates = read_Certificates cfg\<rparr>)"

definition example_ClientHandshake ::
  "Config_read option \<Rightarrow> Context \<Rightarrow> string \<Rightarrow> net_Conn \<Rightarrow> string + ConnectionState" where
  "example_ClientHandshake c ctx authority rawConn =
     (case c of
        None \<Rightarrow> Inl ''tls: no configuration''
      | Some cfg \<Rightarrow>
          if ctx \<noteq> Background then Inl ''context done''
          else if read_RootCAs cfg = [] then Inl ''x509: certificate signed by unknown authority''
          else Inr \<lparr>Version = read_MaxVersion cfg, HandshakeComplete = True,
                    NegotiatedProtocol = ''h2'', PeerCertificates = read_RootCAs cfg\<rparr>)"

definition example_Info :: "Config_read option \<Rightarrow> ProtocolInfo" where
  "example_Info c = \<lparr>SecurityProtocol = ''tls'', SecurityVersion = ''1.2''\<rparr>"

text \<open>
  A store: arrays 0 and 1 are those of the two \<open>alpnProtoStr\<close> variables, arrays 2 and 3
  the certificates and the protocol list of the configurations, pool 0 their trust roots.
  The second configuration has no certificates.
\<close>

definition example_config :: tls_Config where
  "example_config =
     \<lparr>Certificates = Some 2, RootCAs = Some 0, NextProtos = Some 3, ServerName = ''peer0'',
      MinVersion = 0x0301, MaxVersion = 0x0304, SessionTicketsDisabled = False,
      SessionTicketKey = 0, serverInitOnce = False, sessionTicketKeys = []\<rparr>"

definition example_memory :: memory where
  "example_memory =
     \<lparr>arrays = [[''h2''], [''h2''], [''cert-0''], [''http/1.1'']], pools = [[''ca-0'']]\<rparr>"

definition example_state :: state where
  "example_state =
     \<lparr>configs = [example_config, example_config\<lparr>Certificates := None\<rparr>],
      mem = example_memory,
      servers = [\<lparr>serverConfig = Some 0, logger = None\<rparr>,
                 \<lparr>serverConfig = Some 1, logger = Some 7\<rparr>],
      clients = [\<lparr>TLSConfig = Some 0,
                   TLSOptions = [set_Certificates [''cert-1''], set_Certificates [''cert-2'']]\<rparr>,
                 \<lparr>TLSConfig = Some 0, TLSOptions = [set_ServerName ''pinned-host'']\<rparr>,
                 \<lparr>TLSConfig = Some 0, TLSOptions = [replace_first_Certificate ''cert-x'']\<rparr>],
      logged = [],
      alpnProtoStr = Some 0,
      credentials_alpnProtoStr = Some 1,
      entropy = [0x1F2E3D4C, 0x5B6A7988]\<rparr>"

definition example_conn :: net_Conn where
  "example_conn = \<lparr>RemoteAddr = ''10.0.0.9:40312'', LocalAddr = ''10.0.0.1:7051''\<rparr>"

section \<open>Properties\<close>

subsection \<open>Store and derivation lemmas\<close>

lemma load_Some: "a < length cells \<Longrightarrow> load cells (Some a) = Some (cells ! a)"
  by (simp add: load_def)

lemma load_SomeD: "load cells p = Some x \<Longrightarrow> \<exists>a. p = Some a \<and> a < length cells \<and> cells ! a = x"
  by (auto simp: load_def split: option.splits if_splits)

lemma assign_config_Some:
  "a < length (configs s) \<Longrightarrow>
   assign_config (Some a) f s = Inr (s\<lparr>configs := (configs s)[a := f (configs s ! a)]\<rparr>)"
  by (simp add: assign_config_def)

lemma NewServerTransportCredentials_eq:
  assumes "a < length (configs s)"
  shows "NewServerTransportCredentials (Some a) lg s =
     Inr (s\<lparr>configs := (configs s)[a := (configs s ! a)
               \<lparr>NextProtos := alpnProtoStr s, MinVersion := VersionTLS12,
                MaxVersion := VersionTLS12\<rparr>],
            servers := servers s @ [\<lparr>serverConfig = Some a, logger = lg\<rparr>]\<rparr>,
          Some (length (servers s)))"
  using assms by (simp add: NewServerTransportCredentials_def assign_config_Some)

lemma update_appended:
  "(xs[a := c] @ [y])[length xs := z] = xs[a := c] @ [z]"
  by (simp add: list_update_append)

lemma same_but_tickets_refl: "same_but_tickets c c"
  by (simp add: same_but_tickets_def)

lemma same_but_tickets_trans:
  "same_but_tickets c c' \<Longrightarrow> same_but_tickets c' c'' \<Longrightarrow> same_but_tickets c c''"
  by (simp add: same_but_tickets_def)

lemma keeps_refl: "keeps m m"
  by (simp add: keeps_def)

lemma keeps_trans: "keeps m m' \<Longrightarrow> keeps m' m'' \<Longrightarrow> keeps m m''"
  unfolding keeps_def by (meson prefix_order.trans)

lemma serverInit_same: "same_but_tickets c (fst (serverInit c rnd))"
  by (simp add: serverInit_def same_but_tickets_def split: list.splits)

lemma serverInitOnce_Do_eq:
  "\<exists>c rnd. same_but_tickets (configs s ! a) c \<and>
     serverInitOnce_Do a s = s\<lparr>configs := (configs s)[a := c], entropy := rnd\<rparr>"
proof (cases "serverInitOnce (configs s ! a)")
  case True
  have "same_but_tickets (configs s ! a) (configs s ! a) \<and>
     serverInitOnce_Do a s = s\<lparr>configs := (configs s)[a := configs s ! a], entropy := entropy s\<rparr>"
    using True by (simp add: serverInitOnce_Do_def same_but_tickets_refl)
  then show ?thesis by blast
next
  case False
  obtain c rnd where r: "serverInit (configs s ! a) (entropy s) = (c, rnd)"
    by (cases "serverInit (configs s ! a) (entropy s)")
  have "same_but_tickets (configs s ! a) c"
    using serverInit_same [of "configs s ! a" "entropy s"] by (simp add: r)
  then have "same_but_tickets (configs s ! a) (c\<lparr>serverInitOnce := True\<rparr>)"
    by (simp add: same_but_tickets_def)
  moreover have "serverInitOnce_Do a s =
      s\<lparr>configs := (configs s)[a := c\<lparr>serverInitOnce := True\<rparr>], entropy := rnd\<rparr>"
    using False by (simp add: serverInitOnce_Do_def r)
  ultimately show ?thesis by blast
qed

lemma tls_Config_Clone_eq:
  assumes "a < length (configs s)"
  shows "\<exists>c rnd. same_but_tickets (configs s ! a) c \<and>
     tls_Config_Clone (Some a) s =
       Inr (s\<lparr>configs := (configs s)[a := c] @ [c\<lparr>serverInitOnce := False\<rparr>], entropy := rnd\<rparr>,
            Some (length (configs s)))"
proof -
  from serverInitOnce_Do_eq [of s a] obtain c rnd where
    same: "same_but_tickets (configs s ! a) c" and
    eq: "serverInitOnce_Do a s = s\<lparr>configs := (configs s)[a := c], entropy := rnd\<rparr>"
    by blast
  have "tls_Config_Clone (Some a) s =
       Inr (s\<lparr>configs := (configs s)[a := c] @ [c\<lparr>serverInitOnce := False\<rparr>], entropy := rnd\<rparr>,
            Some (length (configs s)))"
    using assms by (simp add: tls_Config_Clone_def eq Let_def)
  with same show ?thesis by blast
qed

lemma range_TLSOptions_eq:
  "p < length (configs s) \<Longrightarrow>
   range_TLSOptions opts (Some p) s =
     Inr (s\<lparr>configs := (configs s)[p := fst (foldl (\<lambda>(c, m) f. f c m) (configs s ! p, mem s) opts)],
            mem := snd (foldl (\<lambda>(c, m) f. f c m) (configs s ! p, mem s) opts)\<rparr>)"
proof (induction opts arbitrary: s)
  case Nil
  then show ?case by simp
next
  case (Cons f fs)
  obtain c m where r: "f (configs s ! p) (mem s) = (c, m)"
    by (cases "f (configs s ! p) (mem s)")
  define s1 where "s1 = s\<lparr>configs := (configs s)[p := c], mem := m\<rparr>"
  have step: "call_TLSOption f (Some p) s = Inr s1"
    using Cons.prems by (simp add: call_TLSOption_def r s1_def)
  have p1: "p < length (configs s1)" "configs s1 ! p = c" "mem s1 = m"
    using Cons.prems by (simp_all add: s1_def)
  show ?case
    using Cons.prems by (simp add: step Cons.IH [OF p1(1)] p1 r) (simp add: s1_def)
qed

lemma latestConfig_eq:
  assumes "load (clients s) dtc = Some this" and "TLSConfig this = Some a"
    and "a < length (configs s)"
  shows "\<exists>c rnd. same_but_tickets (configs s ! a) c \<and>
     latestConfig dtc s =
       Inr (s\<lparr>configs := (configs s)[a := c] @
                [fst (foldl (\<lambda>(c, m) f. f c m) (c\<lparr>serverInitOnce := False\<rparr>, mem s) (TLSOptions this))],
              mem := snd (foldl (\<lambda>(c, m) f. f c m) (c\<lparr>serverInitOnce := False\<rparr>, mem s) (TLSOptions this)),
              entropy := rnd\<rparr>,
            Some (length (configs s)))"
proof -
  from tls_Config_Clone_eq [OF assms(3)] obtain c rnd where
    same: "same_but_tickets (configs s ! a) c" and
    clone: "tls_Config_Clone (Some a) s =
       Inr (s\<lparr>configs := (configs s)[a := c] @ [c\<lparr>serverInitOnce := False\<rparr>], entropy := rnd\<rparr>,
            Some (length (configs s)))"
    by blast
  define s1 where "s1 = s\<lparr>configs := (configs s)[a := c] @ [c\<lparr>serverInitOnce := False\<rparr>], entropy := rnd\<rparr>"
  have p: "length (configs s) < length (configs s1)"
    "configs s1 ! length (configs s) = c\<lparr>serverInitOnce := False\<rparr>" "mem s1 = mem s"
    by (simp_all add: s1_def nth_append)
  have "latestConfig dtc s =
       Inr (s\<lparr>configs := (configs s)[a := c] @
                [fst (foldl (\<lambda>(c, m) f. f c m) (c\<lparr>serverInitOnce := False\<rparr>, mem s) (TLSOptions this))],
              mem := snd (foldl (\<lambda>(c, m) f. f c m) (c\<lparr>serverInitOnce := False\<rparr>, mem s) (TLSOptions this)),
              entropy := rnd\<rparr>,
            Some (length (configs s)))"
    unfolding latestConfig_def assms(1) option.case assms(2) clone [folded s1_def] sum.case prod.case
      range_TLSOptions_eq [OF p(1)] p
    by (simp add: s1_def update_appended)
  with same show ?thesis by blast
qed

lemma NewTLS_eq:
  assumes "p < length (configs s)"
  shows "\<exists>c rnd. same_but_tickets (configs s ! p) c \<and>
     NewTLS (Some p) s =
       Inr (s\<lparr>configs := (configs s)[p := c] @
                [c\<lparr>serverInitOnce := False, NextProtos := credentials_alpnProtoStr s\<rparr>],
              entropy := rnd\<rparr>,
            \<lparr>creds_config = Some (length (configs s))\<rparr>)"
proof -
  from tls_Config_Clone_eq [OF assms] obtain c rnd where
    same: "same_but_tickets (configs s ! p) c" and
    clone: "tls_Config_Clone (Some p) s =
       Inr (s\<lparr>configs := (configs s)[p := c] @ [c\<lparr>serverInitOnce := False\<rparr>], entropy := rnd\<rparr>,
            Some (length (configs s)))"
    by blast
  have "NewTLS (Some p) s =
       Inr (s\<lparr>configs := (configs s)[p := c] @
                [c\<lparr>serverInitOnce := False, NextProtos := credentials_alpnProtoStr s\<rparr>],
              entropy := rnd\<rparr>,
            \<lparr>creds_config = Some (length (configs s))\<rparr>)"
    by (simp add: NewTLS_def cloneTLSConfig_def clone assign_config_def nth_append update_appended)
  with same show ?thesis by blast
qed

lemma take_update_eq:
  assumes "a < length xs"
  shows "take (length xs) (ys[a := xs ! a]) = xs \<longleftrightarrow>
     length xs \<le> length ys \<and> (\<forall>i<length xs. i \<noteq> a \<longrightarrow> ys ! i = xs ! i)"
proof
  assume eq: "take (length xs) (ys[a := xs ! a]) = xs"
  have "length (take (length xs) (ys[a := xs ! a])) = min (length ys) (length xs)"
    by simp
  with eq have len: "length xs \<le> length ys"
    by (metis min.cobounded1)
  have "ys ! i = xs ! i" if "i < length xs" "i \<noteq> a" for i
  proof -
    have "take (length xs) (ys[a := xs ! a]) ! i = ys ! i"
      using that len by simp
    with eq show ?thesis by simp
  qed
  with len show "length xs \<le> length ys \<and> (\<forall>i<length xs. i \<noteq> a \<longrightarrow> ys ! i = xs ! i)"
    by blast
next
  assume h: "length xs \<le> length ys \<and> (\<forall>i<length xs. i \<noteq> a \<longrightarrow> ys ! i = xs ! i)"
  show "take (length xs) (ys[a := xs ! a]) = xs"
  proof (rule nth_equalityI)
    show "length (take (length xs) (ys[a := xs ! a])) = length xs"
      using h by simp
  next
    fix i assume "i < length (take (length xs) (ys[a := xs ! a]))"
    then have i: "i < length xs" by simp
    show "take (length xs) (ys[a := xs ! a]) ! i = xs ! i"
      using i h by (cases "i = a") simp_all
  qed
qed

lemma frame_nth:
  assumes "a < length (configs s)"
  shows "frame a s s' \<longleftrightarrow>
     length (configs s) \<le> length (configs s') \<and>
     (\<forall>i<length (configs s). i \<noteq> a \<longrightarrow> configs s' ! i = configs s ! i) \<and>
     same_but_tickets (configs s ! a) (configs s' ! a) \<and>
     servers s' = servers s \<and> clients s' = clients s \<and> logged s' = logged s \<and>
     alpnProtoStr s' = alpnProtoStr s \<and>
     credentials_alpnProtoStr s' = credentials_alpnProtoStr s"
  unfolding frame_def take_update_eq [OF assms] by blast

lemma frame_refl: "a < length (configs s) \<Longrightarrow> frame a s s"
  by (simp add: frame_nth same_but_tickets_refl)

lemma frame_length: "a < length (configs s) \<Longrightarrow> frame a s s' \<Longrightarrow> a < length (configs s')"
  by (simp add: frame_nth)

lemma frame_trans:
  assumes "a < length (configs s)" and "frame a s s'" and "frame a s' s''"
  shows "frame a s s''"
proof -
  have a': "a < length (configs s')"
    using assms(1,2) by (rule frame_length)
  from assms(2) have 1:
    "length (configs s) \<le> length (configs s')"
    "\<forall>i<length (configs s). i \<noteq> a \<longrightarrow> configs s' ! i = configs s ! i"
    "same_but_tickets (configs s ! a) (configs s' ! a)"
    "servers s' = servers s" "clients s' = clients s" "logged s' = logged s"
    "alpnProtoStr s' = alpnProtoStr s"
    "credentials_alpnProtoStr s' = credentials_alpnProtoStr s"
    unfolding frame_nth [OF assms(1)] by blast+
  from assms(3) have 2:
    "length (configs s') \<le> length (configs s'')"
    "\<forall>i<length (configs s'). i \<noteq> a \<longrightarrow> configs s'' ! i = configs s' ! i"
    "same_but_tickets (configs s' ! a) (configs s'' ! a)"
    "servers s'' = servers s'" "clients s'' = clients s'" "logged s'' = logged s'"
    "alpnProtoStr s'' = alpnProtoStr s'"
    "credentials_alpnProtoStr s'' = credentials_alpnProtoStr s'"
    unfolding frame_nth [OF a'] by blast+
  have "\<forall>i<length (configs s). i \<noteq> a \<longrightarrow> configs s'' ! i = configs s ! i"
    using 1(1,2) 2(2) by auto
  moreover have "same_but_tickets (configs s ! a) (configs s'' ! a)"
    using 1(3) 2(3) by (rule same_but_tickets_trans)
  ultimately show ?thesis
    unfolding frame_nth [OF assms(1)] using 1 2 by simp
qed

lemma foldl_keeps:
  "\<forall>f\<in>set fs. \<forall>c m. keeps m (snd (f c m)) \<Longrightarrow>
   keeps m0 (snd (foldl (\<lambda>(c, m) f. f c m) (c0, m0) fs))"
proof (induction fs arbitrary: c0 m0)
  case Nil
  then show ?case by (simp add: keeps_refl)
next
  case (Cons f fs)
  obtain c1 m1 where r: "f c0 m0 = (c1, m1)"
    by (cases "f c0 m0")
  have "keeps m0 m1"
    using Cons.prems r by (metis list.set_intros(1) snd_conv)
  moreover have "keeps m1 (snd (foldl (\<lambda>(c, m) f. f c m) (c1, m1) fs))"
    using Cons.prems by (intro Cons.IH) simp
  ultimately show ?case
    by (simp add: r) (rule keeps_trans)
qed

lemma foldl_keeps_field:
  "\<forall>f\<in>set fs. \<forall>c m. (case f c m of (c', m') \<Rightarrow> field c' m' = field c m) \<Longrightarrow>
   (case foldl (\<lambda>(c, m) f. f c m) (c0, m0) fs of (c', m') \<Rightarrow> field c' m') = field c0 m0"
proof (induction fs arbitrary: c0 m0)
  case Nil
  then show ?case by simp
next
  case (Cons f fs)
  obtain c1 m1 where r: "f c0 m0 = (c1, m1)"
    by (cases "f c0 m0")
  have "field c1 m1 = field c0 m0"
    using Cons.prems r by (metis (mono_tags, lifting) case_prod_conv list.set_intros(1))
  moreover have "(case foldl (\<lambda>(c, m) f. f c m) (c1, m1) fs of (c', m') \<Rightarrow> field c' m') = field c1 m1"
    using Cons.prems by (intro Cons.IH) simp
  ultimately show ?case
    by (simp add: r)
qed

lemma foldl_last_writer:
  assumes "\<forall>c m. (case g c m of (c', m') \<Rightarrow> field c' m' = v)"
    and "\<forall>f\<in>set post. \<forall>c m. (case f c m of (c', m') \<Rightarrow> field c' m' = field c m)"
  shows "(case foldl (\<lambda>(c, m) f. f c m) cm0 (pre @ g # post) of (c', m') \<Rightarrow> field c' m') = v"
proof -
  obtain c1 m1 where 1: "foldl (\<lambda>(c, m) f. f c m) cm0 pre = (c1, m1)"
    by (cases "foldl (\<lambda>(c, m) f. f c m) cm0 pre")
  obtain c2 m2 where 2: "g c1 m1 = (c2, m2)"
    by (cases "g c1 m1")
  have "field c2 m2 = v"
    using assms(1) 2 by (metis (mono_tags, lifting) case_prod_conv)
  with foldl_keeps_field [OF assms(2), of c2 m2] show ?thesis
    by (simp add: 1 2)
qed

lemma do_call_derives:
  assumes "load (clients s) dtc = Some this" and "TLSConfig this = Some a"
    and "a < length (configs s)" and "derives call"
  shows "\<exists>s' c0. do_call ClientHandshake' Info' dtc call s = Inr s' \<and> frame a s s' \<and>
     mem s' = snd (foldl (\<lambda>(c, m) f. f c m) (c0, mem s) (TLSOptions this))"
proof -
  from latestConfig_eq [OF assms(1-3)] obtain c rnd where
    same: "same_but_tickets (configs s ! a) c" and
    latest: "latestConfig dtc s =
       Inr (s\<lparr>configs := (configs s)[a := c] @
                [fst (foldl (\<lambda>(c, m) f. f c m) (c\<lparr>serverInitOnce := False\<rparr>, mem s) (TLSOptions this))],
              mem := snd (foldl (\<lambda>(c, m) f. f c m) (c\<lparr>serverInitOnce := False\<rparr>, mem s) (TLSOptions this)),
              entropy := rnd\<rparr>,
            Some (length (configs s)))"
    by blast
  define snap where "snap = fst (foldl (\<lambda>(c, m) f. f c m) (c\<lparr>serverInitOnce := False\<rparr>, mem s) (TLSOptions this))"
  define m1 where "m1 = snd (foldl (\<lambda>(c, m) f. f c m) (c\<lparr>serverInitOnce := False\<rparr>, mem s) (TLSOptions this))"
  define s1 where "s1 = s\<lparr>configs := (configs s)[a := c] @ [snap], mem := m1, entropy := rnd\<rparr>"
  have latest': "latestConfig dtc s = Inr (s1, Some (length (configs s)))"
    unfolding latest s1_def snap_def m1_def ..
  have f1: "frame a s s1"
    unfolding frame_nth [OF assms(3)] using assms(3) same
    by (simp add: s1_def nth_append)
  have mem1: "mem s1 = m1"
    by (simp add: s1_def)
  have p: "length (configs s) < length (configs s1)"
    by (simp add: s1_def)
  from NewTLS_eq [OF p] obtain c' rnd' where
    new: "NewTLS (Some (length (configs s))) s1 =
       Inr (s1\<lparr>configs := (configs s1)[length (configs s) := c'] @
                [c'\<lparr>serverInitOnce := False, NextProtos := credentials_alpnProtoStr s1\<rparr>],
              entropy := rnd'\<rparr>,
            \<lparr>creds_config = Some (length (configs s1))\<rparr>)"
    by blast
  define s2 where "s2 = s1\<lparr>configs := (configs s1)[length (configs s) := c'] @
                [c'\<lparr>serverInitOnce := False, NextProtos := credentials_alpnProtoStr s1\<rparr>],
              entropy := rnd'\<rparr>"
  have new': "NewTLS (Some (length (configs s))) s1 = Inr (s2, \<lparr>creds_config = Some (length (configs s1))\<rparr>)"
    unfolding new s2_def ..
  have f2: "frame a s s2"
    unfolding frame_nth [OF assms(3)] using assms(3) same
    by (simp add: s2_def s1_def nth_append)
  have mem2: "mem s2 = m1"
    by (simp add: s2_def s1_def)
  have one: "\<exists>s' c0. Inr s1 = Inr s' \<and> frame a s s' \<and>
     mem s' = snd (foldl (\<lambda>(c, m) f. f c m) (c0, mem s) (TLSOptions this))"
    using f1 mem1 m1_def by blast
  have two: "\<exists>s' c0. Inr s2 = Inr s' \<and> frame a s s' \<and>
     mem s' = snd (foldl (\<lambda>(c, m) f. f c m) (c0, mem s) (TLSOptions this))"
    using f2 mem2 m1_def by blast
  show ?thesis
  proof (cases call)
    case Call_latestConfig
    then show ?thesis using one by (simp add: state_after_def latest')
  next
    case (Call_ClientHandshake ctx authority rawConn)
    then show ?thesis
      using two by (simp add: state_after_def DynamicClientCredentials_ClientHandshake_def latest' new')
  next
    case Call_Info
    then show ?thesis
      using two by (simp add: state_after_def DynamicClientCredentials_Info_def latest' new')
  next
    case Call_Clone
    then show ?thesis
      using two by (simp add: state_after_def DynamicClientCredentials_Clone_def latest' new')
  next
    case (Call_OverrideServerName name)
    then show ?thesis using assms(4) by simp
  qed
qed

lemma do_calls_derive:
  assumes "load (clients s) dtc = Some this" and "TLSConfig this = Some a"
    and "a < length (configs s)" and "list_all derives calls"
  shows "\<exists>s'. do_calls ClientHandshake' Info' dtc calls s = Inr s' \<and> frame a s s' \<and>
     ((\<forall>f\<in>set (TLSOptions this). \<forall>c m. keeps m (snd (f c m))) \<longrightarrow> keeps (mem s) (mem s'))"
  using assms
proof (induction calls arbitrary: s)
  case Nil
  then show ?case by (simp add: frame_refl keeps_refl)
next
  case (Cons call calls)
  from Cons.prems(4) have d: "derives call" and ds: "list_all derives calls"
    by simp_all
  from do_call_derives [OF Cons.prems(1-3) d, of ClientHandshake' Info']
  obtain s1 c0 where step: "do_call ClientHandshake' Info' dtc call s = Inr s1"
    and f1: "frame a s s1"
    and m1: "mem s1 = snd (foldl (\<lambda>(c, m) f. f c m) (c0, mem s) (TLSOptions this))"
    by blast
  have cl: "clients s1 = clients s"
    using f1 by (simp add: frame_def)
  have v1: "load (clients s1) dtc = Some this" "a < length (configs s1)"
    using Cons.prems(1,3) f1 by (simp_all add: cl frame_length)
  from Cons.IH [OF v1(1) Cons.prems(2) v1(2) ds]
  obtain s' where run: "do_calls ClientHandshake' Info' dtc calls s1 = Inr s'"
    and f2: "frame a s1 s'"
    and k2: "(\<forall>f\<in>set (TLSOptions this). \<forall>c m. keeps m (snd (f c m))) \<longrightarrow> keeps (mem s1) (mem s')"
    by blast
  have "frame a s s'"
    using Cons.prems(3) f1 f2 by (rule frame_trans)
  moreover have "(\<forall>f\<in>set (TLSOptions this). \<forall>c m. keeps m (snd (f c m))) \<longrightarrow> keeps (mem s) (mem s')"
  proof
    assume h: "\<forall>f\<in>set (TLSOptions this). \<forall>c m. keeps m (snd (f c m))"
    have "keeps (mem s) (mem s1)"
      unfolding m1 using h by (rule foldl_keeps)
    moreover have "keeps (mem s1) (mem s')"
      using k2 h by blast
    ultimately show "keeps (mem s) (mem s')"
      by (rule keeps_trans)
  qed
  moreover have "do_calls ClientHandshake' Info' dtc (call # calls) s = Inr s'"
    using step run by simp
  ultimately show ?case
    by blast
qed

lemma OverrideServerName_eq:
  assumes "load (clients s) dtc = Some this" and "TLSConfig this = Some a"
    and "a < length (configs s)"
  shows "DynamicClientCredentials_OverrideServerName dtc name s =
     Inr (s\<lparr>configs := (configs s)[a := (configs s ! a)\<lparr>ServerName := name\<rparr>]\<rparr>, None)"
  using assms by (simp add: DynamicClientCredentials_OverrideServerName_def assign_config_Some)

subsection \<open>Properties of the server adapter\<close>

lemma deref_Config_Some:
  "a < length (configs s) \<Longrightarrow> deref_Config s (Some a) = Some (read_Config (mem s) (configs s ! a))"
  by (simp add: deref_Config_def load_def)

text \<open>
  C6. The role-misuse entry points return their fixed error and nothing else, for every
  receiver (nil included) and every argument: \<open>ClientHandshake\<close> of the server adapter
  returns \<open>ClientHandshakeNotImplError\<close>, \<open>ServerHandshake\<close> of the client adapter returns
  \<open>ServerHandshakeNotImplementedError\<close>, both with no connection and no auth info, and
  \<open>OverrideServerName\<close> of the server adapter returns
  \<open>OverrrideHostnameNotSupportedError\<close>; any two calls return the same value.
\<close>

theorem role_misuse_fixed_errors:
  "serverCreds_ClientHandshake sc ctx authority rawConn =
     (None, None, Some ClientHandshakeNotImplError) \<and>
   DynamicClientCredentials_ServerHandshake dtc rawConn =
     (None, None, Some ServerHandshakeNotImplementedError) \<and>
   serverCreds_OverrideServerName sc name = Some OverrrideHostnameNotSupportedError \<and>
   serverCreds_ClientHandshake sc ctx authority rawConn =
     serverCreds_ClientHandshake sc' ctx' authority' rawConn' \<and>
   DynamicClientCredentials_ServerHandshake dtc rawConn =
     DynamicClientCredentials_ServerHandshake dtc' rawConn' \<and>
   serverCreds_OverrideServerName sc name = serverCreds_OverrideServerName sc' name'"
  by (simp add: serverCreds_ClientHandshake_def DynamicClientCredentials_ServerHandshake_def
      serverCreds_OverrideServerName_def)

text \<open>
  C7. On an adapter that exists: when the handshake fails with an error, \<open>ServerHandshake\<close>
  returns that error with no connection and no auth info, and the only effect is one
  logging call, carrying the remote address and the error, when the adapter has a logger,
  and none when it has not; when the handshake succeeds it returns the secured connection
  and the auth info holding the negotiated state, with no error and no effect.
\<close>

theorem ServerHandshake_failure_success:
  assumes "load (servers s) sc = Some this"
  shows "(\<forall>msg. Handshake (deref_Config s (serverConfig this)) rawConn = Inl msg \<longrightarrow>
            serverCreds_ServerHandshake Handshake sc rawConn s =
              Inr (s\<lparr>logged := logged s @
                     (case logger this of
                        None \<Rightarrow> []
                      | Some l \<Rightarrow>
                          [\<lparr>on_logger = l,
                            with_fields = [(''remote address'', RemoteAddr rawConn)],
                            format = ''TLS handshake failed with error %s'',
                            argument = TLSError msg\<rparr>])\<rparr>,
                   (None, None, Some (TLSError msg)))) \<and>
         (\<forall>st. Handshake (deref_Config s (serverConfig this)) rawConn = Inr st \<longrightarrow>
            serverCreds_ServerHandshake Handshake sc rawConn s =
              Inr (s, (Some (tls_Server rawConn (serverConfig this)), Some (TLSInfo st), None)))"
  using assms
  by (simp add: serverCreds_ServerHandshake_def tls_Server_def Let_def split: option.splits)

theorem ServerHandshake_failure_success_witness:
  "load (servers example_state) (Some 1) = Some \<lparr>serverConfig = Some 1, logger = Some 7\<rparr> \<and>
   example_Handshake (deref_Config example_state (Some 1)) example_conn =
     Inl ''tls: no certificates configured'' \<and>
   serverCreds_ServerHandshake example_Handshake (Some 1) example_conn example_state =
     Inr (example_state\<lparr>logged :=
            [\<lparr>on_logger = 7,
              with_fields = [(''remote address'', ''10.0.0.9:40312'')],
              format = ''TLS handshake failed with error %s'',
              argument = TLSError ''tls: no certificates configured''\<rparr>]\<rparr>,
          (None, None, Some (TLSError ''tls: no certificates configured''))) \<and>
   load (servers example_state) (Some 0) = Some \<lparr>serverConfig = Some 0, logger = None\<rparr> \<and>
   example_Handshake (deref_Config example_state (Some 0)) example_conn =
     Inr \<lparr>Version = 0x0304, HandshakeComplete = True, NegotiatedProtocol = ''h2'',
          PeerCertificates = [''cert-0'']\<rparr> \<and>
   serverCreds_ServerHandshake example_Handshake (Some 0) example_conn example_state =
     Inr (example_state,
          (Some \<lparr>conn = example_conn, config = Some 0\<rparr>,
           Some (TLSInfo \<lparr>Version = 0x0304, HandshakeComplete = True,
                          NegotiatedProtocol = ''h2'', PeerCertificates = [''cert-0'']\<rparr>),
           None))"
proof -
  have l1: "load (servers example_state) (Some 1) = Some \<lparr>serverConfig = Some 1, logger = Some 7\<rparr>"
    by (simp add: load_def example_state_def)
  have l0: "load (servers example_state) (Some 0) = Some \<lparr>serverConfig = Some 0, logger = None\<rparr>"
    by (simp add: load_def example_state_def)
  have h1: "example_Handshake (deref_Config example_state (Some 1)) example_conn =
     Inl ''tls: no certificates configured''"
    by (simp add: deref_Config_def read_Config_def read_slice_def load_def example_state_def
        example_Handshake_def)
  have h0: "example_Handshake (deref_Config example_state (Some 0)) example_conn =
     Inr \<lparr>Version = 0x0304, HandshakeComplete = True, NegotiatedProtocol = ''h2'',
          PeerCertificates = [''cert-0'']\<rparr>"
    by (simp add: deref_Config_def read_Config_def read_slice_def load_def example_state_def
        example_Handshake_def example_config_def example_memory_def)
  have lg: "logged example_state = []" "RemoteAddr example_conn = ''10.0.0.9:40312''"
    by (simp_all add: example_state_def example_conn_def)
  from ServerHandshake_failure_success [OF l1, of example_Handshake example_conn] h1
  have f: "serverCreds_ServerHandshake example_Handshake (Some 1) example_conn example_state =
     Inr (example_state\<lparr>logged :=
            [\<lparr>on_logger = 7,
              with_fields = [(''remote address'', ''10.0.0.9:40312'')],
              format = ''TLS handshake failed with error %s'',
              argument = TLSError ''tls: no certificates configured''\<rparr>]\<rparr>,
          (None, None, Some (TLSError ''tls: no certificates configured'')))"
    by (simp add: lg)
  from ServerHandshake_failure_success [OF l0, of example_Handshake example_conn] h0
  have g: "serverCreds_ServerHandshake example_Handshake (Some 0) example_conn example_state =
     Inr (example_state,
          (Some \<lparr>conn = example_conn, config = Some 0\<rparr>,
           Some (TLSInfo \<lparr>Version = 0x0304, HandshakeComplete = True,
                          NegotiatedProtocol = ''h2'', PeerCertificates = [''cert-0'']\<rparr>),
           None))"
    by (simp add: tls_Server_def)
  from l1 h1 f l0 h0 g show ?thesis by blast
qed

lemma ServerHandshake_eq:
  assumes "load (servers s) sc = Some this"
  shows "serverCreds_ServerHandshake Handshake sc rawConn s =
     (case Handshake (deref_Config s (serverConfig this)) rawConn of
        Inl msg \<Rightarrow>
          Inr (s\<lparr>logged := logged s @
                 (case logger this of
                    None \<Rightarrow> []
                  | Some l \<Rightarrow>
                      [\<lparr>on_logger = l,
                        with_fields = [(''remote address'', RemoteAddr rawConn)],
                        format = ''TLS handshake failed with error %s'',
                        argument = TLSError msg\<rparr>])\<rparr>,
               (None, None, Some (TLSError msg)))
      | Inr st \<Rightarrow>
          Inr (s, (Some (tls_Server rawConn (serverConfig this)), Some (TLSInfo st), None)))"
  using assms
  by (simp add: serverCreds_ServerHandshake_def tls_Server_def Let_def
      split: option.splits sum.splits)

lemma ServerHandshake_returns:
  assumes "load (servers s) sc = Some this"
  shows "\<exists>s'. serverCreds_ServerHandshake Handshake sc rawConn s =
           Inr (s', handshake_returns (tls_Server rawConn (serverConfig this))
                      (Handshake (deref_Config s (serverConfig this)) rawConn)) \<and>
           configs s' = configs s \<and> mem s' = mem s \<and> servers s' = servers s \<and>
           clients s' = clients s"
  by (simp add: ServerHandshake_eq [OF assms] handshake_returns_def split: sum.splits)

text \<open>
  C3. An adapter is built on a configuration, then serves two handshakes, and between the
  two the configuration is overwritten with any fields and the memory with any content.
  The first handshake returns what the library's handshake gives for the configuration
  as it reads after construction, and the second what it gives for the new fields and
  memory: the configuration is read when \<open>ServerHandshake\<close> is called, and the adapter
  is never rebuilt.
\<close>

theorem ServerHandshake_reads_current_config:
  assumes "a < length (configs s0)"
  shows "\<exists>s sc s1 s2.
     NewServerTransportCredentials (Some a) lg s0 = Inr (s, sc) \<and>
     serverCreds_ServerHandshake Handshake sc rawConn s =
       Inr (s1, handshake_returns (tls_Server rawConn (Some a))
                  (Handshake (Some (read_Config (mem s) (configs s ! a))) rawConn)) \<and>
     serverCreds_ServerHandshake Handshake sc rawConn'
         (s1\<lparr>configs := (configs s1)[a := c'], mem := m'\<rparr>) =
       Inr (s2, handshake_returns (tls_Server rawConn' (Some a))
                  (Handshake (Some (read_Config m' c')) rawConn'))"
proof -
  let ?adapter = "\<lparr>serverConfig = Some a, logger = lg\<rparr>"
  obtain s sc where new: "NewServerTransportCredentials (Some a) lg s0 = Inr (s, sc)"
    and len: "length (configs s) = length (configs s0)"
    and ld: "load (servers s) sc = Some ?adapter"
    using assms by (simp add: NewServerTransportCredentials_eq load_Some)
  from ServerHandshake_returns [OF ld, of Handshake rawConn]
  obtain s1 where h1: "serverCreds_ServerHandshake Handshake sc rawConn s =
      Inr (s1, handshake_returns (tls_Server rawConn (Some a))
                 (Handshake (deref_Config s (Some a)) rawConn))"
    and c1: "configs s1 = configs s" and v1: "servers s1 = servers s"
    by auto
  define t where "t = s1\<lparr>configs := (configs s1)[a := c'], mem := m'\<rparr>"
  have ld': "load (servers t) sc = Some ?adapter"
    using ld v1 by (simp add: t_def)
  from ServerHandshake_returns [OF ld', of Handshake rawConn']
  obtain s2 where h2: "serverCreds_ServerHandshake Handshake sc rawConn' t =
      Inr (s2, handshake_returns (tls_Server rawConn' (Some a))
                 (Handshake (deref_Config t (Some a)) rawConn'))"
    by auto
  have d1: "deref_Config s (Some a) = Some (read_Config (mem s) (configs s ! a))"
    using assms len by (simp add: deref_Config_Some)
  have d2: "deref_Config t (Some a) = Some (read_Config m' c')"
    using assms len c1 by (simp add: deref_Config_Some t_def)
  note h1' = h1 [unfolded d1] and h2' = h2 [unfolded d2, unfolded t_def]
  from new h1' h2' show ?thesis
    by blast
qed

theorem ServerHandshake_reads_current_config_witness:
  "0 < length (configs example_state) \<and>
   (\<exists>s sc s1 s2.
     NewServerTransportCredentials (Some 0) None example_state = Inr (s, sc) \<and>
     serverCreds_ServerHandshake example_Handshake sc example_conn s =
       Inr (s1, (Some \<lparr>conn = example_conn, config = Some 0\<rparr>,
                 Some (TLSInfo \<lparr>Version = 0x0303, HandshakeComplete = True,
                          NegotiatedProtocol = ''h2'', PeerCertificates = [''cert-0'']\<rparr>),
                 None)) \<and>
     serverCreds_ServerHandshake example_Handshake sc example_conn
         (s1\<lparr>configs := (configs s1)[0 := example_config\<lparr>Certificates := None\<rparr>],
             mem := example_memory\<rparr>) =
       Inr (s2, (None, None, Some (TLSError ''tls: no certificates configured''))))"
proof -
  have h: "0 < length (configs example_state)"
    by (simp add: example_state_def)
  from ServerHandshake_reads_current_config [OF h, where lg = None
      and Handshake = example_Handshake and rawConn = example_conn and rawConn' = example_conn
      and c' = "example_config\<lparr>Certificates := None\<rparr>" and m' = example_memory]
  obtain s sc s1 s2 where
    new: "NewServerTransportCredentials (Some 0) None example_state = Inr (s, sc)" and
    h1: "serverCreds_ServerHandshake example_Handshake sc example_conn s =
       Inr (s1, handshake_returns (tls_Server example_conn (Some 0))
                  (example_Handshake (Some (read_Config (mem s) (configs s ! 0))) example_conn))" and
    h2: "serverCreds_ServerHandshake example_Handshake sc example_conn
          (s1\<lparr>configs := (configs s1)[0 := example_config\<lparr>Certificates := None\<rparr>],
              mem := example_memory\<rparr>) =
       Inr (s2, handshake_returns (tls_Server example_conn (Some 0))
                  (example_Handshake
                     (Some (read_Config example_memory (example_config\<lparr>Certificates := None\<rparr>)))
                     example_conn))"
    by blast
  have cfg: "configs s ! 0 = example_config
      \<lparr>NextProtos := Some 0, MinVersion := VersionTLS12, MaxVersion := VersionTLS12\<rparr> \<and>
      mem s = example_memory"
  proof -
    from new NewServerTransportCredentials_eq [OF h, of None]
    have "s = example_state\<lparr>configs := (configs example_state)[0 := (configs example_state ! 0)
               \<lparr>NextProtos := alpnProtoStr example_state, MinVersion := VersionTLS12,
                MaxVersion := VersionTLS12\<rparr>],
            servers := servers example_state @ [\<lparr>serverConfig = Some 0, logger = None\<rparr>]\<rparr>"
      by simp
    then show ?thesis
      by (simp add: example_state_def)
  qed
  have r1: "handshake_returns (tls_Server example_conn (Some 0))
                  (example_Handshake (Some (read_Config (mem s) (configs s ! 0))) example_conn) =
      (Some \<lparr>conn = example_conn, config = Some 0\<rparr>,
                 Some (TLSInfo \<lparr>Version = 0x0303, HandshakeComplete = True,
                          NegotiatedProtocol = ''h2'', PeerCertificates = [''cert-0'']\<rparr>),
                 None)"
    by (simp add: cfg handshake_returns_def tls_Server_def example_Handshake_def
        example_config_def example_memory_def VersionTLS12_def read_Config_def read_slice_def
        load_def)
  have r2: "handshake_returns (tls_Server example_conn (Some 0))
                  (example_Handshake
                     (Some (read_Config example_memory (example_config\<lparr>Certificates := None\<rparr>)))
                     example_conn) =
      (None, None, Some (TLSError ''tls: no certificates configured''))"
    by (simp add: handshake_returns_def example_Handshake_def read_Config_def read_slice_def
        load_def)
  from h new h1 h2 show ?thesis
    unfolding r1 r2 by blast
qed

text \<open>
  C5. For every configuration handed to \<open>NewServerTransportCredentials\<close>, whatever its
  fields held before, the call returns an adapter on that same configuration and leaves
  it with minimum and maximum version both TLS 1.2 (0x0303), so that the two are equal,
  and with the package's \<open>alpnProtoStr\<close> slice as its ALPN list. The list therefore reads
  \<open>["h2"]\<close> whenever the array of \<open>alpnProtoStr\<close> does, that is, as long as no element
  was written through it.
\<close>

theorem NewServerTransportCredentials_policy:
  assumes "a < length (configs s)"
  shows "\<exists>s' sc. NewServerTransportCredentials (Some a) lg s = Inr (s', sc) \<and>
           load (servers s') sc = Some \<lparr>serverConfig = Some a, logger = lg\<rparr> \<and>
           length (configs s') = length (configs s) \<and>
           NextProtos (configs s' ! a) = alpnProtoStr s \<and>
           read_slice (mem s') (NextProtos (configs s' ! a)) = read_slice (mem s) (alpnProtoStr s) \<and>
           (read_slice (mem s) (alpnProtoStr s) = [''h2''] \<longrightarrow>
              read_NextProtos (read_Config (mem s') (configs s' ! a)) = [''h2'']) \<and>
           MinVersion (configs s' ! a) = 0x0303 \<and>
           MaxVersion (configs s' ! a) = 0x0303 \<and>
           MinVersion (configs s' ! a) = MaxVersion (configs s' ! a)"
  using assms
  by (simp add: NewServerTransportCredentials_eq load_Some VersionTLS12_def read_Config_def)

theorem NewServerTransportCredentials_policy_witness:
  "0 < length (configs example_state) \<and>
   read_slice (mem example_state) (alpnProtoStr example_state) = [''h2''] \<and>
   read_slice (mem example_state) (NextProtos (configs example_state ! 0)) = [''http/1.1''] \<and>
   MinVersion (configs example_state ! 0) = 0x0301 \<and>
   MaxVersion (configs example_state ! 0) = 0x0304 \<and>
   (\<exists>s' sc. NewServerTransportCredentials (Some 0) None example_state = Inr (s', sc) \<and>
      load (servers s') sc = Some \<lparr>serverConfig = Some 0, logger = None\<rparr> \<and>
      length (configs s') = length (configs example_state) \<and>
      read_NextProtos (read_Config (mem s') (configs s' ! 0)) = [''h2''] \<and>
      MinVersion (configs s' ! 0) = 0x0303 \<and>
      MaxVersion (configs s' ! 0) = 0x0303 \<and>
      MinVersion (configs s' ! 0) = MaxVersion (configs s' ! 0))"
proof -
  have h: "0 < length (configs example_state)"
    by (simp add: example_state_def)
  have g: "read_slice (mem example_state) (alpnProtoStr example_state) = [''h2'']"
    by (simp add: example_state_def example_memory_def read_slice_def load_def)
  have "read_slice (mem example_state) (NextProtos (configs example_state ! 0)) = [''http/1.1''] \<and>
        MinVersion (configs example_state ! 0) = 0x0301 \<and>
        MaxVersion (configs example_state ! 0) = 0x0304"
    by (simp add: example_state_def example_config_def example_memory_def read_slice_def load_def)
  with h g NewServerTransportCredentials_policy [OF h, of None] show ?thesis
    by blast
qed

text \<open>
  C5, for every state: in the example store the array of \<open>alpnProtoStr\<close> holds \<open>h2\<close>. A
  caller builds an adapter on the first configuration, writes \<open>http/1.1\<close> to element 0 of
  that configuration's \<open>NextProtos\<close> (now the shared array), and builds an adapter on the
  second configuration: its ALPN list reads \<open>["http/1.1"]\<close>, not \<open>["h2"]\<close>.
\<close>

theorem NewServerTransportCredentials_policy_counterexample:
  "read_slice (mem example_state) (alpnProtoStr example_state) = [''h2''] \<and>
   construct_write_construct 0 0 ''http/1.1'' 1 example_state = Inr [''http/1.1'']"
proof -
  have 0: "read_slice (mem example_state) (alpnProtoStr example_state) = [''h2'']"
    by (simp add: example_state_def example_memory_def read_slice_def load_def)
  have h0: "0 < length (configs example_state)"
    by (simp add: example_state_def)
  define s1 where "s1 = example_state\<lparr>configs := (configs example_state)[0 := (configs example_state ! 0)
               \<lparr>NextProtos := alpnProtoStr example_state, MinVersion := VersionTLS12,
                MaxVersion := VersionTLS12\<rparr>],
            servers := servers example_state @ [\<lparr>serverConfig = Some 0, logger = None\<rparr>]\<rparr>"
  have 1: "NewServerTransportCredentials (Some 0) None example_state =
      Inr (s1, Some (length (servers example_state)))"
    unfolding s1_def by (rule NewServerTransportCredentials_eq [OF h0])
  have c1: "load (configs s1) (Some 0) = Some (configs s1 ! 0)"
    "NextProtos (configs s1 ! 0) = Some 0" "mem s1 = example_memory"
    by (simp_all add: s1_def load_def example_state_def)
  define m where "m = example_memory\<lparr>arrays := [[''http/1.1''], [''h2''], [''cert-0''], [''http/1.1'']]\<rparr>"
  have 2: "write_element (Some 0) 0 ''http/1.1'' example_memory = Inr m"
    by (simp add: write_element_def example_memory_def m_def)
  define t where "t = s1\<lparr>mem := m\<rparr>"
  have h1: "1 < length (configs t)"
    by (simp add: t_def s1_def example_state_def)
  define s2 where "s2 = t\<lparr>configs := (configs t)[1 := (configs t ! 1)
               \<lparr>NextProtos := alpnProtoStr t, MinVersion := VersionTLS12,
                MaxVersion := VersionTLS12\<rparr>],
            servers := servers t @ [\<lparr>serverConfig = Some 1, logger = None\<rparr>]\<rparr>"
  have 3: "NewServerTransportCredentials (Some 1) None t = Inr (s2, Some (length (servers t)))"
    unfolding s2_def by (rule NewServerTransportCredentials_eq [OF h1])
  have c2: "load (configs s2) (Some 1) = Some (configs s2 ! 1)"
    "read_slice (mem s2) (NextProtos (configs s2 ! 1)) = [''http/1.1'']"
    by (simp_all add: s2_def t_def s1_def m_def load_def example_state_def read_slice_def)
  have "construct_write_construct 0 0 ''http/1.1'' 1 example_state = Inr [''http/1.1'']"
    unfolding construct_write_construct_def
    by (simp only: 1 c1 2 3 [unfolded t_def] c2 sum.case prod.case option.case)
  with 0 show ?thesis
    by (rule conjI)
qed

lemma serverCreds_Clone_eq:
  assumes "load (servers s) sc = Some this" and "serverConfig this = Some a"
    and "a < length (configs s)"
  shows "serverCreds_Clone sc s =
     Inr (s\<lparr>configs := (configs s)[a := (configs s ! a)
               \<lparr>NextProtos := alpnProtoStr s, MinVersion := VersionTLS12,
                MaxVersion := VersionTLS12\<rparr>],
            servers := servers s @ [this]\<rparr>,
          Some (length (servers s)))"
proof -
  have adapter: "\<lparr>serverConfig = Some a, logger = logger this\<rparr> = this"
    using assms(2) by (cases this) simp
  have "serverCreds_Clone sc s = NewServerTransportCredentials (Some a) (logger this) s"
    using assms(1,2) by (simp add: serverCreds_Clone_def)
  also note NewServerTransportCredentials_eq [OF assms(3), of "logger this"]
  finally show ?thesis
    unfolding adapter .
qed

text \<open>
  C8. \<open>Clone\<close> of a server adapter returns a new adapter (an address that was not in use,
  so different from the receiver's) whose fields are those of the receiver: the same
  configuration pointer and the same logger. Whatever is then written to the shared
  configuration and to the memory, a handshake on the original and a handshake on the
  clone both return what the library's handshake gives for what the configuration then
  reads.
\<close>

theorem serverCreds_Clone_shares_config:
  assumes "load (servers s) sc = Some this" and "serverConfig this = Some a"
    and "a < length (configs s)"
  shows "\<exists>s1 sc'.
     serverCreds_Clone sc s = Inr (s1, sc') \<and>
     sc' \<noteq> sc \<and> load (servers s) sc' = None \<and>
     load (servers s1) sc' = Some this \<and> load (servers s1) sc = Some this \<and>
     (\<forall>c' m' rawConn. \<exists>s2 s2'.
        serverCreds_ServerHandshake Handshake sc rawConn
            (s1\<lparr>configs := (configs s1)[a := c'], mem := m'\<rparr>) =
          Inr (s2, handshake_returns (tls_Server rawConn (Some a))
                     (Handshake (Some (read_Config m' c')) rawConn)) \<and>
        serverCreds_ServerHandshake Handshake sc' rawConn
            (s1\<lparr>configs := (configs s1)[a := c'], mem := m'\<rparr>) =
          Inr (s2', handshake_returns (tls_Server rawConn (Some a))
                      (Handshake (Some (read_Config m' c')) rawConn)))"
proof -
  from load_SomeD [OF assms(1)] obtain i where sc: "sc = Some i"
    and i: "i < length (servers s)" and cell: "servers s ! i = this"
    by blast
  define s1 where "s1 = s\<lparr>configs := (configs s)[a := (configs s ! a)
               \<lparr>NextProtos := alpnProtoStr s, MinVersion := VersionTLS12,
                MaxVersion := VersionTLS12\<rparr>],
            servers := servers s @ [this]\<rparr>"
  define sc' where "sc' = Some (length (servers s))"
  have clone: "serverCreds_Clone sc s = Inr (s1, sc')"
    unfolding s1_def sc'_def by (rule serverCreds_Clone_eq [OF assms])
  have srv: "servers s1 = servers s @ [this]" and len: "length (configs s1) = length (configs s)"
    by (simp_all add: s1_def)
  have fresh: "sc' \<noteq> sc" "load (servers s) sc' = None"
    using sc i by (simp_all add: load_def sc'_def)
  have new: "load (servers s1) sc' = Some this"
    by (simp add: load_def sc'_def srv)
  have old: "load (servers s1) sc = Some this"
    using sc i cell by (simp add: load_def srv nth_append)
  have hs: "\<exists>s2 s2'.
        serverCreds_ServerHandshake Handshake sc rawConn
            (s1\<lparr>configs := (configs s1)[a := c'], mem := m'\<rparr>) =
          Inr (s2, handshake_returns (tls_Server rawConn (Some a))
                     (Handshake (Some (read_Config m' c')) rawConn)) \<and>
        serverCreds_ServerHandshake Handshake sc' rawConn
            (s1\<lparr>configs := (configs s1)[a := c'], mem := m'\<rparr>) =
          Inr (s2', handshake_returns (tls_Server rawConn (Some a))
                      (Handshake (Some (read_Config m' c')) rawConn))"
    for c' m' rawConn
  proof -
    define t where "t = s1\<lparr>configs := (configs s1)[a := c'], mem := m'\<rparr>"
    have cur: "deref_Config t (Some a) = Some (read_Config m' c')"
      using assms(3) len by (simp add: deref_Config_Some t_def)
    have o: "load (servers t) sc = Some this" using old by (simp add: t_def)
    have n: "load (servers t) sc' = Some this" using new by (simp add: t_def)
    from ServerHandshake_returns [OF o, of Handshake rawConn]
    obtain s2 where a: "serverCreds_ServerHandshake Handshake sc rawConn t =
          Inr (s2, handshake_returns (tls_Server rawConn (Some a))
                     (Handshake (Some (read_Config m' c')) rawConn))"
      unfolding assms(2) cur by blast
    from ServerHandshake_returns [OF n, of Handshake rawConn]
    obtain s2' where b: "serverCreds_ServerHandshake Handshake sc' rawConn t =
          Inr (s2', handshake_returns (tls_Server rawConn (Some a))
                      (Handshake (Some (read_Config m' c')) rawConn))"
      unfolding assms(2) cur by blast
    from a b show ?thesis
      unfolding t_def by blast
  qed
  have "serverCreds_Clone sc s = Inr (s1, sc') \<and>
     sc' \<noteq> sc \<and> load (servers s) sc' = None \<and>
     load (servers s1) sc' = Some this \<and> load (servers s1) sc = Some this \<and>
     (\<forall>c' m' rawConn. \<exists>s2 s2'.
        serverCreds_ServerHandshake Handshake sc rawConn
            (s1\<lparr>configs := (configs s1)[a := c'], mem := m'\<rparr>) =
          Inr (s2, handshake_returns (tls_Server rawConn (Some a))
                     (Handshake (Some (read_Config m' c')) rawConn)) \<and>
        serverCreds_ServerHandshake Handshake sc' rawConn
            (s1\<lparr>configs := (configs s1)[a := c'], mem := m'\<rparr>) =
          Inr (s2', handshake_returns (tls_Server rawConn (Some a))
                      (Handshake (Some (read_Config m' c')) rawConn)))"
    by (intro conjI allI clone fresh new old hs)
  then show ?thesis
    by (intro exI)
qed

theorem serverCreds_Clone_shares_config_witness:
  "load (servers example_state) (Some 1) = Some \<lparr>serverConfig = Some 1, logger = Some 7\<rparr> \<and>
   1 < length (configs example_state) \<and>
   (\<exists>s1 s2 s2'.
      serverCreds_Clone (Some 1) example_state = Inr (s1, Some 2) \<and>
      load (servers example_state) (Some 2) = None \<and>
      load (servers s1) (Some 2) = Some \<lparr>serverConfig = Some 1, logger = Some 7\<rparr> \<and>
      serverCreds_ServerHandshake example_Handshake (Some 1) example_conn
          (s1\<lparr>configs := (configs s1)[1 := example_config], mem := example_memory\<rparr>) =
        Inr (s2, (Some \<lparr>conn = example_conn, config = Some 1\<rparr>,
                 Some (TLSInfo \<lparr>Version = 0x0304, HandshakeComplete = True,
                          NegotiatedProtocol = ''h2'', PeerCertificates = [''cert-0'']\<rparr>),
                 None)) \<and>
      serverCreds_ServerHandshake example_Handshake (Some 2) example_conn
          (s1\<lparr>configs := (configs s1)[1 := example_config], mem := example_memory\<rparr>) =
        Inr (s2', (Some \<lparr>conn = example_conn, config = Some 1\<rparr>,
                 Some (TLSInfo \<lparr>Version = 0x0304, HandshakeComplete = True,
                          NegotiatedProtocol = ''h2'', PeerCertificates = [''cert-0'']\<rparr>),
                 None)))"
proof -
  let ?adapter = "\<lparr>serverConfig = Some 1, logger = Some 7\<rparr>"
  have l: "load (servers example_state) (Some 1) = Some ?adapter"
    by (simp add: load_def example_state_def)
  have c: "serverConfig ?adapter = Some 1"
    by simp
  have h: "1 < length (configs example_state)"
    by (simp add: example_state_def)
  have r: "handshake_returns (tls_Server example_conn (Some 1))
             (example_Handshake (Some (read_Config example_memory example_config)) example_conn) =
           (Some \<lparr>conn = example_conn, config = Some 1\<rparr>,
                 Some (TLSInfo \<lparr>Version = 0x0304, HandshakeComplete = True,
                          NegotiatedProtocol = ''h2'', PeerCertificates = [''cert-0'']\<rparr>),
                 None)"
    by (simp add: handshake_returns_def tls_Server_def example_Handshake_def example_config_def
        example_memory_def read_Config_def read_slice_def load_def)
  from serverCreds_Clone_shares_config [OF l c h, of example_Handshake]
  obtain s1 sc' where
    clone: "serverCreds_Clone (Some 1) example_state = Inr (s1, sc')" and
    fresh: "load (servers example_state) sc' = None" and
    new: "load (servers s1) sc' = Some ?adapter" and
    hs: "\<forall>c' m' rawConn. \<exists>s2 s2'.
        serverCreds_ServerHandshake example_Handshake (Some 1) rawConn
            (s1\<lparr>configs := (configs s1)[1 := c'], mem := m'\<rparr>) =
          Inr (s2, handshake_returns (tls_Server rawConn (Some 1))
                     (example_Handshake (Some (read_Config m' c')) rawConn)) \<and>
        serverCreds_ServerHandshake example_Handshake sc' rawConn
            (s1\<lparr>configs := (configs s1)[1 := c'], mem := m'\<rparr>) =
          Inr (s2', handshake_returns (tls_Server rawConn (Some 1))
                      (example_Handshake (Some (read_Config m' c')) rawConn))"
    by blast
  have sc': "sc' = Some 2"
  proof -
    have "length (servers example_state) = 2"
      by (simp add: example_state_def)
    with clone serverCreds_Clone_eq [OF l c h] show ?thesis
      by simp
  qed
  from hs [THEN spec [where x = example_config], THEN spec [where x = example_memory],
      THEN spec [where x = example_conn]]
  obtain s2 s2' where
    "serverCreds_ServerHandshake example_Handshake (Some 1) example_conn
        (s1\<lparr>configs := (configs s1)[1 := example_config], mem := example_memory\<rparr>) =
          Inr (s2, handshake_returns (tls_Server example_conn (Some 1))
                 (example_Handshake (Some (read_Config example_memory example_config)) example_conn))"
    "serverCreds_ServerHandshake example_Handshake sc' example_conn
        (s1\<lparr>configs := (configs s1)[1 := example_config], mem := example_memory\<rparr>) =
          Inr (s2', handshake_returns (tls_Server example_conn (Some 1))
                 (example_Handshake (Some (read_Config example_memory example_config)) example_conn))"
    by blast
  with l h clone fresh new show ?thesis
    unfolding r sc' by blast
qed

text \<open>
  C10. With a nil \<open>serverConfig\<close>, the first assignment of \<open>NewServerTransportCredentials\<close>
  (the ALPN list) dereferences nil, and the constructor panics instead of returning. No
  operation that returns an error returns \<open>MissingServerConfigError\<close>.
\<close>

theorem MissingServerConfigError_never_returned:
  "assign_config None (\<lambda>c. c\<lparr>NextProtos := alpnProtoStr s\<rparr>) s = Inl NilDereference \<and>
   NewServerTransportCredentials None lg s = Inl NilDereference \<and>
   serverCreds_ClientHandshake sc ctx authority rawConn \<noteq> (c, i, Some MissingServerConfigError) \<and>
   serverCreds_ServerHandshake Handshake sc rawConn s \<noteq> Inr (s', c, i, Some MissingServerConfigError) \<and>
   serverCreds_OverrideServerName sc name \<noteq> Some MissingServerConfigError \<and>
   DynamicClientCredentials_ClientHandshake ClientHandshake' dtc ctx authority rawConn s \<noteq>
     Inr (s', c, i, Some MissingServerConfigError) \<and>
   DynamicClientCredentials_ServerHandshake dtc rawConn \<noteq> (c, i, Some MissingServerConfigError) \<and>
   DynamicClientCredentials_OverrideServerName dtc name s \<noteq> Inr (s', Some MissingServerConfigError)"
proof -
  have 1: "assign_config None (\<lambda>c. c\<lparr>NextProtos := alpnProtoStr s\<rparr>) s = Inl NilDereference"
    by (simp add: assign_config_def)
  have 2: "NewServerTransportCredentials None lg s = Inl NilDereference"
    by (simp add: NewServerTransportCredentials_def assign_config_def)
  have 3: "serverCreds_ClientHandshake sc ctx authority rawConn \<noteq> (c, i, Some MissingServerConfigError)"
    by (simp add: serverCreds_ClientHandshake_def)
  have 4: "serverCreds_ServerHandshake Handshake sc rawConn s \<noteq>
      Inr (s', c, i, Some MissingServerConfigError)"
    by (simp add: serverCreds_ServerHandshake_def Let_def split: option.splits sum.splits)
  have 5: "serverCreds_OverrideServerName sc name \<noteq> Some MissingServerConfigError"
    by (simp add: serverCreds_OverrideServerName_def)
  have 6: "DynamicClientCredentials_ClientHandshake ClientHandshake' dtc ctx authority rawConn s \<noteq>
     Inr (s', c, i, Some MissingServerConfigError)"
    by (simp add: DynamicClientCredentials_ClientHandshake_def tlsCreds_ClientHandshake_def
        split: sum.splits prod.splits)
  have 7: "DynamicClientCredentials_ServerHandshake dtc rawConn \<noteq> (c, i, Some MissingServerConfigError)"
    by (simp add: DynamicClientCredentials_ServerHandshake_def)
  have 8: "DynamicClientCredentials_OverrideServerName dtc name s \<noteq>
      Inr (s', Some MissingServerConfigError)"
    by (simp add: DynamicClientCredentials_OverrideServerName_def split: option.splits sum.splits)
  from 1 2 3 4 5 6 7 8 show ?thesis
    by blast
qed

subsection \<open>Properties of the dynamic client adapter\<close>




lemma latestConfig_run:
  assumes "load (clients s) dtc = Some this" and "TLSConfig this = Some a"
    and "a < length (configs s)"
  shows "latestConfig dtc s =
     Inr ((serverInitOnce_Do a s)
           \<lparr>configs := configs (serverInitOnce_Do a s) @
              [fst (foldl (\<lambda>(c, m) f. f c m)
                 ((configs (serverInitOnce_Do a s) ! a)\<lparr>serverInitOnce := False\<rparr>, mem s)
                 (TLSOptions this))],
            mem := snd (foldl (\<lambda>(c, m) f. f c m)
                 ((configs (serverInitOnce_Do a s) ! a)\<lparr>serverInitOnce := False\<rparr>, mem s)
                 (TLSOptions this))\<rparr>,
          Some (length (configs s)))"
proof -
  from serverInitOnce_Do_eq [of s a] obtain c rnd where
    eq: "serverInitOnce_Do a s = s\<lparr>configs := (configs s)[a := c], entropy := rnd\<rparr>"
    by blast
  define s1 where "s1 = (s\<lparr>configs := (configs s)[a := c], entropy := rnd\<rparr>)
      \<lparr>configs := (configs s)[a := c] @ [c\<lparr>serverInitOnce := False\<rparr>]\<rparr>"
  have clone: "tls_Config_Clone (Some a) s = Inr (s1, Some (length (configs s)))"
    using assms(3) by (simp add: tls_Config_Clone_def eq Let_def s1_def)
  have p: "length (configs s) < length (configs s1)"
    "configs s1 ! length (configs s) = c\<lparr>serverInitOnce := False\<rparr>" "mem s1 = mem s"
    by (simp_all add: s1_def nth_append)
  show ?thesis
    unfolding latestConfig_def assms(1) option.case assms(2) clone sum.case prod.case
      range_TLSOptions_eq [OF p(1)] p
    using assms(3) by (simp add: eq s1_def update_appended)
qed

lemma serverInitOnce_Do_cell:
  assumes "a < length (configs s)"
  shows "length (configs (serverInitOnce_Do a s)) = length (configs s) \<and>
     same_but_tickets (configs s ! a) (configs (serverInitOnce_Do a s) ! a) \<and>
     mem (serverInitOnce_Do a s) = mem s"
proof -
  from serverInitOnce_Do_eq [of s a] obtain c rnd where
    "same_but_tickets (configs s ! a) c"
    "serverInitOnce_Do a s = s\<lparr>configs := (configs s)[a := c], entropy := rnd\<rparr>"
    by blast
  then show ?thesis
    using assms by simp
qed

text \<open>
  C1. On an adapter with a base configuration, \<open>latestConfig\<close> returns a configuration
  that did not exist before. Its fields, and the memory, are the result of the functions
  of \<open>TLSOptions\<close> applied one after the other, from the first registered to the last,
  starting from a clone of the base: the fields that the base has once the library's
  \<open>Clone\<close> has run its initialisation, which are those of the base but for the
  session-ticket state. So, for anything that can be observed of a configuration: when a function of
  the list makes it a value and no function registered after it changes it, the returned
  configuration has that value, whatever the functions registered before it did.
\<close>

theorem latestConfig_applies_options_in_order:
  assumes "load (clients s) dtc = Some this" and "TLSConfig this = Some a"
    and "a < length (configs s)"
  shows "\<exists>s' p snap clone.
     latestConfig dtc s = Inr (s', p) \<and>
     load (configs s) p = None \<and>
     load (configs s') p = Some snap \<and>
     clone = (configs (serverInitOnce_Do a s) ! a)\<lparr>serverInitOnce := False\<rparr> \<and>
     same_but_tickets (configs s ! a) clone \<and>
     (snap, mem s') = foldl (\<lambda>(c, m) f. f c m) (clone, mem s) (TLSOptions this) \<and>
     (\<forall>pre g post v.
        TLSOptions this = pre @ g # post \<and>
        (\<forall>c m. case g c m of (c', m') \<Rightarrow> field c' m' = v) \<and>
        (\<forall>f\<in>set post. \<forall>c m. case f c m of (c', m') \<Rightarrow> field c' m' = field c m) \<longrightarrow>
        field snap (mem s') = v)"
proof -
  define clone where "clone = (configs (serverInitOnce_Do a s) ! a)\<lparr>serverInitOnce := False\<rparr>"
  define r where "r = foldl (\<lambda>(c, m) f. f c m) (clone, mem s) (TLSOptions this)"
  define snap where "snap = fst r"
  define s' where "s' = (serverInitOnce_Do a s)
      \<lparr>configs := configs (serverInitOnce_Do a s) @ [snap], mem := snd r\<rparr>"
  define p where "p = Some (length (configs s))"
  note init = serverInitOnce_Do_cell [OF assms(3)]
  have run: "latestConfig dtc s = Inr (s', p)"
    unfolding latestConfig_run [OF assms] s'_def p_def snap_def r_def clone_def ..
  have fresh: "load (configs s) p = None"
    by (simp add: load_def p_def)
  have cell: "load (configs s') p = Some snap"
    using init by (simp add: load_def p_def s'_def nth_append)
  have cl: "same_but_tickets (configs s ! a) clone"
    using init by (simp add: clone_def same_but_tickets_def)
  have res: "(snap, mem s') = foldl (\<lambda>(c, m) f. f c m) (clone, mem s) (TLSOptions this)"
    by (simp add: snap_def s'_def r_def)
  have last: "\<forall>pre g post v.
        TLSOptions this = pre @ g # post \<and>
        (\<forall>c m. case g c m of (c', m') \<Rightarrow> field c' m' = v) \<and>
        (\<forall>f\<in>set post. \<forall>c m. case f c m of (c', m') \<Rightarrow> field c' m' = field c m) \<longrightarrow>
        field snap (mem s') = v"
  proof (intro allI impI)
    fix pre g post v
    assume h: "TLSOptions this = pre @ g # post \<and>
        (\<forall>c m. case g c m of (c', m') \<Rightarrow> field c' m' = v) \<and>
        (\<forall>f\<in>set post. \<forall>c m. case f c m of (c', m') \<Rightarrow> field c' m' = field c m)"
    from h have opts: "TLSOptions this = pre @ g # post"
      by (rule conjunct1)
    from h have g: "\<forall>c m. case g c m of (c', m') \<Rightarrow> field c' m' = v"
      by (rule conjunct2 [THEN conjunct1])
    from h have post: "\<forall>f\<in>set post. \<forall>c m. case f c m of (c', m') \<Rightarrow> field c' m' = field c m"
      by (rule conjunct2 [THEN conjunct2])
    from foldl_last_writer [OF g post, of "(clone, mem s)" pre]
    have "(case r of (c', m') \<Rightarrow> field c' m') = v"
      by (simp add: r_def opts)
    then show "field snap (mem s') = v"
      by (simp add: snap_def s'_def split_beta)
  qed
  have "latestConfig dtc s = Inr (s', p) \<and>
     load (configs s) p = None \<and>
     load (configs s') p = Some snap \<and>
     clone = (configs (serverInitOnce_Do a s) ! a)\<lparr>serverInitOnce := False\<rparr> \<and>
     same_but_tickets (configs s ! a) clone \<and>
     (snap, mem s') = foldl (\<lambda>(c, m) f. f c m) (clone, mem s) (TLSOptions this) \<and>
     (\<forall>pre g post v.
        TLSOptions this = pre @ g # post \<and>
        (\<forall>c m. case g c m of (c', m') \<Rightarrow> field c' m' = v) \<and>
        (\<forall>f\<in>set post. \<forall>c m. case f c m of (c', m') \<Rightarrow> field c' m' = field c m) \<longrightarrow>
        field snap (mem s') = v)"
    by (intro conjI run fresh cell clone_def cl res last)
  then show ?thesis
    by (intro exI)
qed

theorem latestConfig_applies_options_in_order_witness:
  "load (clients example_state) (Some 0) =
     Some \<lparr>TLSConfig = Some 0,
           TLSOptions = [set_Certificates [''cert-1''], set_Certificates [''cert-2'']]\<rparr> \<and>
   0 < length (configs example_state) \<and>
   (\<exists>s' p snap.
      latestConfig (Some 0) example_state = Inr (s', p) \<and>
      load (configs s') p = Some snap \<and>
      read_slice (mem s') (Certificates snap) = [''cert-2''])"
proof -
  let ?adapter = "\<lparr>TLSConfig = Some 0,
           TLSOptions = [set_Certificates [''cert-1''], set_Certificates [''cert-2'']]\<rparr>"
  have l: "load (clients example_state) (Some 0) = Some ?adapter"
    by (simp add: load_def example_state_def)
  have c: "TLSConfig ?adapter = Some 0"
    by simp
  have h: "0 < length (configs example_state)"
    by (simp add: example_state_def)
  from latestConfig_applies_options_in_order [OF l c h,
      of "\<lambda>c m. read_slice m (Certificates c)"]
  obtain s' p snap where
    run: "latestConfig (Some 0) example_state = Inr (s', p)" and
    cell: "load (configs s') p = Some snap" and
    last: "\<forall>pre g post v.
        TLSOptions ?adapter = pre @ g # post \<and>
        (\<forall>c m. case g c m of (c', m') \<Rightarrow> read_slice m' (Certificates c') = v) \<and>
        (\<forall>f\<in>set post. \<forall>c m. case f c m of (c', m') \<Rightarrow>
           read_slice m' (Certificates c') = read_slice m (Certificates c)) \<longrightarrow>
        read_slice (mem s') (Certificates snap) = v"
    by blast
  have "TLSOptions ?adapter = [set_Certificates [''cert-1'']] @ set_Certificates [''cert-2''] # [] \<and>
      (\<forall>c m. case set_Certificates [''cert-2''] c m of (c', m') \<Rightarrow>
         read_slice m' (Certificates c') = [''cert-2'']) \<and>
      (\<forall>f\<in>set []. \<forall>c m. case f c m of (c', m') \<Rightarrow>
           read_slice m' (Certificates c') = read_slice m (Certificates c))"
    by (simp add: set_Certificates_def read_slice_def load_def)
  with last have w: "read_slice (mem s') (Certificates snap) = [''cert-2'']"
    by blast
  from l h run cell w show ?thesis
    by blast
qed








lemma snapshot_after_override:
  assumes "load (clients s) dtc = Some this" and "TLSConfig this = Some a"
    and "a < length (configs s)" and "list_all derives calls"
  shows "\<exists>c0 m0. ServerName c0 = name \<and>
     snapshot_after ClientHandshake' Info' dtc (Call_OverrideServerName name # calls) s =
       Inr (fst (foldl (\<lambda>(c, m) f. f c m) (c0, m0) (TLSOptions this)))"
proof -
  define s1 where "s1 = s\<lparr>configs := (configs s)[a := (configs s ! a)\<lparr>ServerName := name\<rparr>]\<rparr>"
  have first: "do_call ClientHandshake' Info' dtc (Call_OverrideServerName name) s = Inr s1"
    by (simp add: OverrideServerName_eq [OF assms(1-3)] state_after_def s1_def)
  have v1: "load (clients s1) dtc = Some this" "a < length (configs s1)"
    using assms(1,3) by (simp_all add: s1_def)
  have n1: "ServerName (configs s1 ! a) = name"
    using assms(3) by (simp add: s1_def)
  from do_calls_derive [OF v1(1) assms(2) v1(2) assms(4), of ClientHandshake' Info']
  obtain s2 where run: "do_calls ClientHandshake' Info' dtc calls s1 = Inr s2"
    and fr: "frame a s1 s2"
    by blast
  have all: "do_calls ClientHandshake' Info' dtc (Call_OverrideServerName name # calls) s = Inr s2"
    using first run by simp
  have v2: "load (clients s2) dtc = Some this" "a < length (configs s2)"
    using v1 fr by (simp_all add: frame_def frame_length)
  have n2: "ServerName (configs s2 ! a) = name"
    using fr n1 by (simp add: frame_def same_but_tickets_def)
  from latestConfig_eq [OF v2(1) assms(2) v2(2)] obtain c rnd where
    same: "same_but_tickets (configs s2 ! a) c" and
    latest: "latestConfig dtc s2 =
       Inr (s2\<lparr>configs := (configs s2)[a := c] @
                [fst (foldl (\<lambda>(c, m) f. f c m) (c\<lparr>serverInitOnce := False\<rparr>, mem s2) (TLSOptions this))],
              mem := snd (foldl (\<lambda>(c, m) f. f c m) (c\<lparr>serverInitOnce := False\<rparr>, mem s2) (TLSOptions this)),
              entropy := rnd\<rparr>,
            Some (length (configs s2)))"
    by blast
  have "ServerName (c\<lparr>serverInitOnce := False\<rparr>) = name"
    using same n2 by (simp add: same_but_tickets_def)
  moreover have "snapshot_after ClientHandshake' Info' dtc (Call_OverrideServerName name # calls) s =
       Inr (fst (foldl (\<lambda>(c, m) f. f c m) (c\<lparr>serverInitOnce := False\<rparr>, mem s2) (TLSOptions this)))"
    unfolding snapshot_after_def all sum.case latest prod.case
    by (simp add: load_def nth_append)
  ultimately show ?thesis
    by blast
qed

text \<open>
  C4. On an adapter with a base configuration, \<open>OverrideServerName\<close> returns no error and
  leaves the base with the given name in its server-name field and its other fields as
  they were. When no function of \<open>TLSOptions\<close> changes the server-name field, the
  snapshot derived after the call, and after any number of handshakes and derivations in
  between, carries that name.
\<close>

theorem OverrideServerName_then_snapshot:
  assumes "load (clients s) dtc = Some this" and "TLSConfig this = Some a"
    and "a < length (configs s)"
    and "\<forall>f\<in>set (TLSOptions this). \<forall>c m. ServerName (fst (f c m)) = ServerName c"
    and "list_all derives calls"
  shows "(\<exists>s1. DynamicClientCredentials_OverrideServerName dtc name s = Inr (s1, None) \<and>
            load (configs s1) (Some a) = Some ((configs s ! a)\<lparr>ServerName := name\<rparr>)) \<and>
         (\<exists>snap. snapshot_after ClientHandshake' Info' dtc (Call_OverrideServerName name # calls) s =
              Inr snap \<and> ServerName snap = name)"
proof -
  have "load (configs (s\<lparr>configs := (configs s)[a := (configs s ! a)\<lparr>ServerName := name\<rparr>]\<rparr>))
      (Some a) = Some ((configs s ! a)\<lparr>ServerName := name\<rparr>)"
    using assms(3) by (simp add: load_def)
  then have override: "\<exists>s1. DynamicClientCredentials_OverrideServerName dtc name s = Inr (s1, None) \<and>
            load (configs s1) (Some a) = Some ((configs s ! a)\<lparr>ServerName := name\<rparr>)"
    by (simp add: OverrideServerName_eq [OF assms(1-3)])
  from snapshot_after_override [OF assms(1-3) assms(5), of name ClientHandshake' Info']
  obtain c0 m0 where n: "ServerName c0 = name" and
    snap: "snapshot_after ClientHandshake' Info' dtc (Call_OverrideServerName name # calls) s =
       Inr (fst (foldl (\<lambda>(c, m) f. f c m) (c0, m0) (TLSOptions this)))"
    by blast
  have keep: "\<forall>f\<in>set (TLSOptions this). \<forall>c m.
      (case f c m of (c', m') \<Rightarrow> ServerName c' = ServerName c)"
    using assms(4) by (simp add: split_beta)
  from foldl_keeps_field [of "TLSOptions this" "\<lambda>c m. ServerName c", OF keep, of c0 m0]
  have "ServerName (fst (foldl (\<lambda>(c, m) f. f c m) (c0, m0) (TLSOptions this))) = name"
    by (simp add: split_beta n)
  with snap have snapshot: "\<exists>snap.
      snapshot_after ClientHandshake' Info' dtc (Call_OverrideServerName name # calls) s = Inr snap \<and>
      ServerName snap = name"
    by simp
  from override snapshot show ?thesis
    by (rule conjI)
qed

theorem OverrideServerName_then_snapshot_witness:
  "load (clients example_state) (Some 0) =
     Some \<lparr>TLSConfig = Some 0,
           TLSOptions = [set_Certificates [''cert-1''], set_Certificates [''cert-2'']]\<rparr> \<and>
   0 < length (configs example_state) \<and>
   (\<forall>c m. ServerName (fst (set_Certificates [''cert-1''] c m)) = ServerName c) \<and>
   (\<forall>c m. ServerName (fst (set_Certificates [''cert-2''] c m)) = ServerName c) \<and>
   list_all derives [Call_ClientHandshake Background ''peer0:7051'' example_conn, Call_latestConfig] \<and>
   ServerName (configs example_state ! 0) = ''peer0'' \<and>
   (\<exists>snap. snapshot_after example_ClientHandshake example_Info (Some 0)
        [Call_OverrideServerName ''new-host'',
         Call_ClientHandshake Background ''peer0:7051'' example_conn, Call_latestConfig]
        example_state = Inr snap \<and> ServerName snap = ''new-host'')"
proof -
  let ?adapter = "\<lparr>TLSConfig = Some 0,
           TLSOptions = [set_Certificates [''cert-1''], set_Certificates [''cert-2'']]\<rparr>"
  let ?calls = "[Call_ClientHandshake Background ''peer0:7051'' example_conn, Call_latestConfig]"
  have l: "load (clients example_state) (Some 0) = Some ?adapter"
    by (simp add: load_def example_state_def)
  have c: "TLSConfig ?adapter = Some 0"
    by simp
  have h: "0 < length (configs example_state)"
    by (simp add: example_state_def)
  have k: "\<forall>f\<in>set (TLSOptions ?adapter). \<forall>c m. ServerName (fst (f c m)) = ServerName c"
    by (simp add: set_Certificates_def)
  have d: "list_all derives ?calls"
    by simp
  have n: "ServerName (configs example_state ! 0) = ''peer0''"
    by (simp add: example_state_def example_config_def)
  from OverrideServerName_then_snapshot [OF l c h k d, of "''new-host''" example_ClientHandshake
      example_Info]
  have "\<exists>snap. snapshot_after example_ClientHandshake example_Info (Some 0)
        (Call_OverrideServerName ''new-host'' # ?calls) example_state = Inr snap \<and>
        ServerName snap = ''new-host''"
    by (rule conjunct2)
  moreover have "\<forall>c m. ServerName (fst (set_Certificates [''cert-1''] c m)) = ServerName c"
    "\<forall>c m. ServerName (fst (set_Certificates [''cert-2''] c m)) = ServerName c"
    using k by simp_all
  ultimately show ?thesis
    using l h d n by simp
qed

text \<open>
  C4, without the condition on the functions: the second adapter of the example store has
  a function that writes the server name \<open>pinned-host\<close>. After
  \<open>OverrideServerName("new-host")\<close> the base holds \<open>new-host\<close>, and the snapshot derived
  next holds \<open>pinned-host\<close>: the functions run on the clone after the base was copied.
\<close>

theorem OverrideServerName_snapshot_counterexample:
  "DynamicClientCredentials_OverrideServerName (Some 1) ''new-host'' example_state =
     Inr (example_state\<lparr>configs :=
            [example_config\<lparr>ServerName := ''new-host''\<rparr>, example_config\<lparr>Certificates := None\<rparr>]\<rparr>,
          None) \<and>
   snapshot_after example_ClientHandshake example_Info (Some 1)
       [Call_OverrideServerName ''new-host''] example_state =
     Inr (example_config\<lparr>ServerName := ''pinned-host'', SessionTicketKey := 0x1F2E3D4C,
                          sessionTicketKeys := [0x1F2E3D4C]\<rparr>) \<and>
   ServerName (example_config\<lparr>ServerName := ''pinned-host'', SessionTicketKey := 0x1F2E3D4C,
                          sessionTicketKeys := [0x1F2E3D4C]\<rparr>) \<noteq> ''new-host''"
proof -
  let ?adapter = "\<lparr>TLSConfig = Some 0, TLSOptions = [set_ServerName ''pinned-host'']\<rparr>"
  define s1 where "s1 = example_state\<lparr>configs :=
            [example_config\<lparr>ServerName := ''new-host''\<rparr>, example_config\<lparr>Certificates := None\<rparr>]\<rparr>"
  have l: "load (clients example_state) (Some 1) = Some ?adapter"
    by (simp add: load_def example_state_def)
  have c: "TLSConfig ?adapter = Some 0"
    by simp
  have h: "0 < length (configs example_state)"
    by (simp add: example_state_def)
  have 1: "DynamicClientCredentials_OverrideServerName (Some 1) ''new-host'' example_state =
     Inr (s1, None)"
    unfolding OverrideServerName_eq [OF l c h] by (simp add: example_state_def s1_def)
  have l1: "load (clients s1) (Some 1) = Some ?adapter"
    and h1: "0 < length (configs s1)"
    by (simp_all add: load_def example_state_def s1_def)
  have init: "serverInitOnce_Do 0 s1 =
     s1\<lparr>configs :=
       [example_config\<lparr>ServerName := ''new-host'', SessionTicketKey := 0x1F2E3D4C,
                       sessionTicketKeys := [0x1F2E3D4C], serverInitOnce := True\<rparr>,
        example_config\<lparr>Certificates := None\<rparr>],
       entropy := [0x5B6A7988]\<rparr>"
    by (simp add: serverInitOnce_Do_def serverInit_def s1_def example_state_def example_config_def)
  have 2: "snapshot_after example_ClientHandshake example_Info (Some 1)
       [Call_OverrideServerName ''new-host''] example_state =
     Inr (example_config\<lparr>ServerName := ''pinned-host'', SessionTicketKey := 0x1F2E3D4C,
                          sessionTicketKeys := [0x1F2E3D4C]\<rparr>)"
  proof -
    have run: "do_calls example_ClientHandshake example_Info (Some 1)
        [Call_OverrideServerName ''new-host''] example_state = Inr s1"
      by (simp only: do_calls.simps do_call.simps 1 state_after_def sum.case prod.case)
    show ?thesis
      unfolding snapshot_after_def run sum.case latestConfig_run [OF l1 c h1] init prod.case
      by (simp add: load_def s1_def example_state_def set_ServerName_def example_config_def)
  qed
  have 3: "ServerName (example_config\<lparr>ServerName := ''pinned-host'', SessionTicketKey := 0x1F2E3D4C,
                          sessionTicketKeys := [0x1F2E3D4C]\<rparr>) \<noteq> ''new-host''"
    by simp
  from 1 [unfolded s1_def] 2 3 show ?thesis
    by (intro conjI)
qed










end
